theory Spec2Isabelle
  imports Complex_Main "HOL-Library.Sublist" "HOL-Library.Multiset"
begin

section \<open>JavaScript numbers\<close>

text \<open>
  The program computes with JavaScript numbers. The embedding takes a finite number as a
  real (no overflow, the two zeros identified) and keeps the three non-finite values
  apart, because the source reaches them by dividing by zero and by taking the square
  root of a negative number, and \<open>Math.min\<close>, \<open>Math.max\<close>, the comparisons and the
  sort treat them differently. The operations below are the exact ones; where a property
  depends on the rounding of a result to a double (the volatility band), the rounding is
  applied to every result, see \<open>jfl\<close>.
\<close>

datatype jsnum = NaN | NegInf | Fin real | PosInf

text \<open>\<open>Math.round\<close> rounds to the nearest integer, a half towards plus infinity;
  \<open>Math.ceil\<close> is the ceiling.\<close>

definition js_round :: "real \<Rightarrow> int" where
  "js_round x = \<lfloor>x + 1 / 2\<rfloor>"

definition js_ceil :: "real \<Rightarrow> int" where
  "js_ceil x = \<lceil>x\<rceil>"

fun jround :: "jsnum \<Rightarrow> jsnum" where
  "jround (Fin x) = Fin (of_int (js_round x))"
| "jround v = v"

fun jceil :: "jsnum \<Rightarrow> jsnum" where
  "jceil (Fin x) = Fin (of_int (js_ceil x))"
| "jceil v = v"

fun jmul :: "jsnum \<Rightarrow> jsnum \<Rightarrow> jsnum" where
  "jmul NaN _ = NaN"
| "jmul _ NaN = NaN"
| "jmul (Fin x) (Fin y) = Fin (x * y)"
| "jmul (Fin x) PosInf = (if x = 0 then NaN else if 0 < x then PosInf else NegInf)"
| "jmul (Fin x) NegInf = (if x = 0 then NaN else if 0 < x then NegInf else PosInf)"
| "jmul PosInf (Fin y) = (if y = 0 then NaN else if 0 < y then PosInf else NegInf)"
| "jmul NegInf (Fin y) = (if y = 0 then NaN else if 0 < y then NegInf else PosInf)"
| "jmul PosInf PosInf = PosInf"
| "jmul NegInf NegInf = PosInf"
| "jmul PosInf NegInf = NegInf"
| "jmul NegInf PosInf = NegInf"

fun jdiv :: "jsnum \<Rightarrow> jsnum \<Rightarrow> jsnum" where
  "jdiv NaN _ = NaN"
| "jdiv _ NaN = NaN"
| "jdiv (Fin x) (Fin y) =
     (if y \<noteq> 0 then Fin (x / y)
      else if x = 0 then NaN else if 0 < x then PosInf else NegInf)"
| "jdiv (Fin x) PosInf = Fin 0"
| "jdiv (Fin x) NegInf = Fin 0"
| "jdiv PosInf (Fin y) = (if 0 \<le> y then PosInf else NegInf)"
| "jdiv NegInf (Fin y) = (if 0 \<le> y then NegInf else PosInf)"
| "jdiv _ _ = NaN"

fun jadd :: "jsnum \<Rightarrow> jsnum \<Rightarrow> jsnum" where
  "jadd NaN _ = NaN"
| "jadd _ NaN = NaN"
| "jadd (Fin x) (Fin y) = Fin (x + y)"
| "jadd PosInf NegInf = NaN"
| "jadd NegInf PosInf = NaN"
| "jadd PosInf _ = PosInf"
| "jadd NegInf _ = NegInf"
| "jadd _ PosInf = PosInf"
| "jadd _ NegInf = NegInf"

fun jneg :: "jsnum \<Rightarrow> jsnum" where
  "jneg NaN = NaN"
| "jneg NegInf = PosInf"
| "jneg (Fin x) = Fin (- x)"
| "jneg PosInf = NegInf"

definition jsub :: "jsnum \<Rightarrow> jsnum \<Rightarrow> jsnum" where
  "jsub a b = jadd a (jneg b)"

text \<open>\<open>Math.min\<close> and \<open>Math.max\<close> return NaN as soon as one argument is NaN.\<close>

fun jmin :: "jsnum \<Rightarrow> jsnum \<Rightarrow> jsnum" where
  "jmin NaN _ = NaN"
| "jmin _ NaN = NaN"
| "jmin NegInf _ = NegInf"
| "jmin _ NegInf = NegInf"
| "jmin PosInf b = b"
| "jmin a PosInf = a"
| "jmin (Fin x) (Fin y) = Fin (min x y)"

fun jmax :: "jsnum \<Rightarrow> jsnum \<Rightarrow> jsnum" where
  "jmax NaN _ = NaN"
| "jmax _ NaN = NaN"
| "jmax PosInf _ = PosInf"
| "jmax _ PosInf = PosInf"
| "jmax NegInf b = b"
| "jmax a NegInf = a"
| "jmax (Fin x) (Fin y) = Fin (max x y)"

fun jsqrt :: "jsnum \<Rightarrow> jsnum" where
  "jsqrt (Fin x) = (if x < 0 then NaN else Fin (sqrt x))"
| "jsqrt PosInf = PosInf"
| "jsqrt _ = NaN"

fun jabs :: "jsnum \<Rightarrow> jsnum" where
  "jabs NaN = NaN"
| "jabs (Fin x) = Fin \<bar>x\<bar>"
| "jabs _ = PosInf"

fun jexp :: "jsnum \<Rightarrow> jsnum" where
  "jexp NaN = NaN"
| "jexp NegInf = Fin 0"
| "jexp (Fin x) = Fin (exp x)"
| "jexp PosInf = PosInf"

text \<open>\<open>a > b\<close>: false as soon as one side is NaN.\<close>

fun jgt :: "jsnum \<Rightarrow> jsnum \<Rightarrow> bool" where
  "jgt NaN _ = False"
| "jgt _ NaN = False"
| "jgt (Fin x) (Fin y) = (y < x)"
| "jgt PosInf PosInf = False"
| "jgt PosInf _ = True"
| "jgt NegInf _ = False"
| "jgt (Fin x) NegInf = True"
| "jgt (Fin x) PosInf = False"

text \<open>\<open>a <= b\<close>: false as soon as one side is NaN.\<close>

fun jle :: "jsnum \<Rightarrow> jsnum \<Rightarrow> bool" where
  "jle NaN _ = False"
| "jle _ NaN = False"
| "jle NegInf _ = True"
| "jle _ PosInf = True"
| "jle (Fin x) (Fin y) = (x \<le> y)"
| "jle _ _ = False"

text \<open>
  The rounding of an exact result to a double, given as a function on the reals; the
  non-finite values are doubles.
\<close>

fun jfl :: "(real \<Rightarrow> real) \<Rightarrow> jsnum \<Rightarrow> jsnum" where
  "jfl fl (Fin x) = Fin (fl x)"
| "jfl fl v = v"

section \<open>Options chain matcher\<close>

text \<open>
  An entry of the parsed chain, as \<open>parseOptionsChain\<close> builds it. The fields the
  strategy generators read are the strike and the mid price.
\<close>

record optionData =
  strike :: real
  bid :: real
  ask :: real
  mid :: real

text \<open>
  \<open>findOptionByStrike\<close>: \<open>null\<close> on an empty list, otherwise
  \<open>options.reduce\<close> without an initial value, so the accumulator starts as the first
  element and the callback runs on the others from left to right; the accumulator is
  replaced only by a strictly closer option.
\<close>

definition closer :: "real \<Rightarrow> optionData \<Rightarrow> optionData \<Rightarrow> optionData" where
  "closer targetStrike closest option =
     (let closestDiff = \<bar>strike closest - targetStrike\<bar>;
          optionDiff = \<bar>strike option - targetStrike\<bar>
      in if optionDiff < closestDiff then option else closest)"

definition findOptionByStrike :: "optionData list \<Rightarrow> real \<Rightarrow> optionData option" where
  "findOptionByStrike options targetStrike =
     (case options of
        [] \<Rightarrow> None
      | first # others \<Rightarrow> Some (foldl (closer targetStrike) first others))"

section \<open>Array.prototype.sort\<close>

text \<open>
  The three sorts of the program call \<open>Array.prototype.sort\<close> with a comparator. The
  language fixes the result when the comparator is consistent: the sort is stable, so the
  result is the one stably sorted list. A comparator that returns NaN for some pair is not
  consistent, and the order is then the engine's. The functions are Node.js handlers, so
  the engine is V8, which takes a NaN returned by the comparator as 0 and sorts an array
  of fewer than 64 elements as follows (\<open>CountAndMakeRun\<close>, then
  \<open>BinaryInsertionSort\<close>): the longest run at the start of the array that is ascending
  (no element before its predecessor) or strictly descending is found, a descending run
  is reversed, and every later element is inserted into the sorted part in front of it at
  the place a binary search finds. \<open>lt x y\<close> stands for "the comparator called on
  \<open>x\<close> and \<open>y\<close> returned a number below zero". With a consistent comparator the
  result is the stably sorted list for an array of any length; the pipelines sort at
  most six candidates.
\<close>

fun countRun :: "('a \<Rightarrow> 'a \<Rightarrow> bool) \<Rightarrow> bool \<Rightarrow> 'a \<Rightarrow> 'a list \<Rightarrow> nat" where
  "countRun lt isDescending previousElement [] = 0"
| "countRun lt isDescending previousElement (currentElement # rest) =
     (if isDescending = lt currentElement previousElement
      then Suc (countRun lt isDescending currentElement rest)
      else 0)"

function findInsert :: "('a \<Rightarrow> 'a \<Rightarrow> bool) \<Rightarrow> 'a \<Rightarrow> 'a list \<Rightarrow> nat \<Rightarrow> nat \<Rightarrow> nat" where
  "findInsert lt pivot workArray left right =
     (if left < right then
        (let mid = left + (right - left) div 2
         in if lt pivot (workArray ! mid) then findInsert lt pivot workArray left mid
            else findInsert lt pivot workArray (mid + 1) right)
      else left)"
  by pat_completeness auto
termination
  by (relation "measure (\<lambda>(lt, pivot, workArray, left, right). right - left)") auto

declare findInsert.simps [simp del]

text \<open>The sorted part and the elements still to insert, from left to right.\<close>

fun binaryInsertionSort :: "('a \<Rightarrow> 'a \<Rightarrow> bool) \<Rightarrow> 'a list \<Rightarrow> 'a list \<Rightarrow> 'a list" where
  "binaryInsertionSort lt sortedPart [] = sortedPart"
| "binaryInsertionSort lt sortedPart (pivot # rest) =
     (let left = findInsert lt pivot sortedPart 0 (length sortedPart)
      in binaryInsertionSort lt (take left sortedPart @ pivot # drop left sortedPart) rest)"

definition arraySort :: "('a \<Rightarrow> 'a \<Rightarrow> bool) \<Rightarrow> 'a list \<Rightarrow> 'a list" where
  "arraySort lt workArray =
     (case workArray of
        [] \<Rightarrow> []
      | [x] \<Rightarrow> [x]
      | elementHigh # elementLow # rest \<Rightarrow>
          (let isDescending = lt elementLow elementHigh;
               runLength = 2 + countRun lt isDescending elementLow rest;
               run = take runLength workArray
           in binaryInsertionSort lt (if isDescending then rev run else run)
                (drop runLength workArray)))"

section \<open>Ranker\<close>

text \<open>
  The last statements of \<open>generateAllStrategies\<close> and of
  \<open>generateStrategiesWithRealPrices\<close> are the same: sort the scored candidates by
  \<open>b.score - a.score\<close>, give the candidate at index \<open>i\<close> the rank \<open>i + 1\<close> and the
  medal at index \<open>i\<close> of a three-element array (the chart marker when that is
  undefined), and return \<open>slice(0, 3)\<close>. The score of a candidate is the number that
  \<open>Math.round\<close> returned: an integer, or NaN.
\<close>

datatype medal = Gold | Silver | Bronze | Chart

record 'a scored =
  cand :: 'a
  score :: jsnum

record 'a ranked =
  rcand :: 'a
  rscore :: jsnum
  rank :: nat
  medal :: medal

definition medalAt :: "nat \<Rightarrow> medal" where
  "medalAt i = (if i < 3 then [Gold, Silver, Bronze] ! i else Chart)"

text \<open>The comparator \<open>(a, b) => b.score - a.score\<close>, and whether the sort reads its
  result as negative: a NaN is read as 0.\<close>

definition compareScores :: "'a scored \<Rightarrow> 'a scored \<Rightarrow> jsnum" where
  "compareScores a b = jsub (score b) (score a)"

definition sortsBefore :: "'a scored \<Rightarrow> 'a scored \<Rightarrow> bool" where
  "sortsBefore x y =
     (let v = compareScores x y;
          order = (if v = NaN then Fin 0 else v)
      in jgt (Fin 0) order)"

definition sortByScore :: "'a scored list \<Rightarrow> 'a scored list" where
  "sortByScore strategies = arraySort sortsBefore strategies"

definition addRank :: "nat \<times> 'a scored \<Rightarrow> 'a ranked" where
  "addRank p = (case p of (i, s) \<Rightarrow>
     \<lparr>rcand = cand s, rscore = score s, rank = i + 1, medal = medalAt i\<rparr>)"

definition rankStrategies :: "'a scored list \<Rightarrow> 'a ranked list" where
  "rankStrategies strategies =
     take 3 (map addRank (enumerate 0 (sortByScore strategies)))"

definition unrank :: "'a ranked \<Rightarrow> 'a scored" where
  "unrank r = \<lparr>cand = rcand r, score = rscore r\<rparr>"

text \<open>A key for the proofs: smaller for the higher score, on the scores that are not NaN.\<close>

fun rankKey :: "jsnum \<Rightarrow> real" where
  "rankKey PosInf = - 2"
| "rankKey (Fin x) = - (x / (1 + \<bar>x\<bar>))"
| "rankKey NegInf = 2"
| "rankKey NaN = 0"

section \<open>Volatility model (the volatility analysis module)\<close>

text \<open>
  The arguments of the two exported functions are any JavaScript values that reach the
  guards: here a \<open>jsnum\<close>, where \<open>NaN\<close> also stands for a missing argument
  (\<open>undefined\<close> or \<open>null\<close>), which the guards treat like NaN. \<open>!x\<close> is true exactly for
  those and for zero.
\<close>

definition falsy :: "jsnum \<Rightarrow> bool" where
  "falsy v = (v = NaN \<or> v = Fin 0)"

text \<open>
  \<open>calculateVolatilityRange\<close> is modelled with the rounding of the arithmetic: \<open>fl\<close>
  maps the exact result of an operation to the double that the operation returns, and is
  applied after every multiplication, division, addition, subtraction and square root
  (\<open>Math.round\<close> is exact on a double). With \<open>fl\<close> the identity the function computes
  on the reals. \<open>Math.round(x * 100) / 100\<close>:
\<close>

definition round2 :: "(real \<Rightarrow> real) \<Rightarrow> jsnum \<Rightarrow> jsnum" where
  "round2 fl v = jfl fl (jdiv (jround (jfl fl (jmul v (Fin 100)))) (Fin 100))"

record sigmaBand =
  upper :: jsnum
  lower :: jsnum
  move :: jsnum
  percent :: jsnum
  probability :: real

text \<open>The returned object, without its \<open>interpretation\<close> text.\<close>

record volatilityRange =
  vrCurrentPrice :: jsnum
  vrIv :: jsnum
  vrDte :: jsnum
  oneSigma :: sigmaBand
  twoSigma :: sigmaBand

definition calculateVolatilityRange ::
    "(real \<Rightarrow> real) \<Rightarrow> jsnum \<Rightarrow> jsnum \<Rightarrow> jsnum \<Rightarrow> volatilityRange option" where
  "calculateVolatilityRange fl currentPrice iv dte =
     (if falsy currentPrice \<or> falsy iv \<or> falsy dte then None
      else
        (let timeFactor = jfl fl (jsqrt (jfl fl (jdiv dte (Fin 365))));
             oneSigmaMove = jfl fl (jmul (jfl fl (jmul currentPrice iv)) timeFactor);
             oneSigmaUpper = jfl fl (jadd currentPrice oneSigmaMove);
             oneSigmaLower = jfl fl (jsub currentPrice oneSigmaMove);
             twoSigmaMove = jfl fl (jmul oneSigmaMove (Fin 2));
             twoSigmaUpper = jfl fl (jadd currentPrice twoSigmaMove);
             twoSigmaLower = jfl fl (jsub currentPrice twoSigmaMove);
             oneSigmaPercent = jfl fl (jmul (jfl fl (jdiv oneSigmaMove currentPrice)) (Fin 100));
             twoSigmaPercent = jfl fl (jmul (jfl fl (jdiv twoSigmaMove currentPrice)) (Fin 100))
         in Some
           \<lparr>vrCurrentPrice = currentPrice,
            vrIv = iv,
            vrDte = dte,
            oneSigma =
              \<lparr>upper = round2 fl oneSigmaUpper,
               lower = round2 fl oneSigmaLower,
               move = round2 fl oneSigmaMove,
               percent = round2 fl oneSigmaPercent,
               probability = 68.2\<rparr>,
            twoSigma =
              \<lparr>upper = round2 fl twoSigmaUpper,
               lower = round2 fl twoSigmaLower,
               move = round2 fl twoSigmaMove,
               percent = round2 fl twoSigmaPercent,
               probability = 95.4\<rparr>\<rparr>))"

text \<open>
  \<open>normalCDF\<close> and \<open>calculateProbabilityInRange\<close>, on the reals with the exact
  exponential.
\<close>

definition normalCDF :: "jsnum \<Rightarrow> jsnum" where
  "normalCDF z =
     (let t = jdiv (Fin 1) (jadd (Fin 1) (jmul (Fin 0.2316419) (jabs z)));
          d = jmul (Fin 0.3989423) (jexp (jdiv (jmul (jneg z) z) (Fin 2)));
          prob = jmul (jmul d t)
            (jadd (Fin 0.3193815) (jmul t
              (jadd (Fin (- 0.3565638)) (jmul t
                (jadd (Fin 1.781478) (jmul t
                  (jadd (Fin (- 1.821256)) (jmul t (Fin 1.330274)))))))))
      in if jgt z (Fin 0) then jsub (Fin 1) prob else prob)"

definition calculateProbabilityInRange ::
    "jsnum \<Rightarrow> jsnum \<Rightarrow> jsnum \<Rightarrow> jsnum \<Rightarrow> jsnum \<Rightarrow> jsnum option" where
  "calculateProbabilityInRange currentPrice lowerBound upperBound iv dte =
     (if falsy currentPrice \<or> falsy lowerBound \<or> falsy upperBound \<or> falsy iv \<or> falsy dte
      then None
      else
        (let sigma = jmul (jmul currentPrice iv) (jsqrt (jdiv dte (Fin 365)));
             zLower = jdiv (jsub lowerBound currentPrice) sigma;
             zUpper = jdiv (jsub upperBound currentPrice) sigma;
             probLower = normalCDF zLower;
             probUpper = normalCDF zUpper;
             probability = jsub probUpper probLower
         in Some (jmax (Fin 0) (jmin (Fin 1) probability))))"

text \<open>The finite part of \<open>normalCDF\<close>, for the proofs: the tail term at \<open>x \<ge> 0\<close>.\<close>

definition cdfPoly :: "real \<Rightarrow> real" where
  "cdfPoly t = t * (0.3193815 + t * (- 0.3565638 + t * (1.781478
     + t * (- 1.821256 + t * 1.330274))))"

definition cdfTail :: "real \<Rightarrow> real" where
  "cdfTail x = 0.3989423 * exp (- (x * x) / 2) * cdfPoly (1 / (1 + 0.2316419 * x))"

text \<open>Rounding to cents, on a finite number: exactly, and in rounded arithmetic.\<close>

definition cents :: "real \<Rightarrow> real" where
  "cents x = of_int (js_round (x * 100)) / 100"

definition roundedCents :: "(real \<Rightarrow> real) \<Rightarrow> real \<Rightarrow> real" where
  "roundedCents fl x = fl (of_int (js_round (fl (x * 100))) / 100)"

text \<open>
  What the proofs use of the rounding to a double: it is monotone, exact at zero, and
  idempotent, as its result is a double.
\<close>

definition roundsToDouble :: "(real \<Rightarrow> real) \<Rightarrow> bool" where
  "roundsToDouble fl \<longleftrightarrow> mono fl \<and> fl 0 = 0 \<and> (\<forall>x. fl (fl x) = fl x)"

text \<open>\<open>normalCDF\<close> on a finite argument, and its value on any argument but NaN.\<close>

definition cdfReal :: "real \<Rightarrow> real" where
  "cdfReal z = (if 0 < z then 1 - cdfTail z else cdfTail (- z))"

fun cdfExt :: "jsnum \<Rightarrow> real" where
  "cdfExt (Fin z) = cdfReal z"
| "cdfExt PosInf = 1"
| "cdfExt _ = 0"

text \<open>The derivative of \<open>cdfPoly\<close>, for the monotonicity proof.\<close>

definition cdfPolyD :: "real \<Rightarrow> real" where
  "cdfPolyD t = 0.3193815 + 2 * (- 0.3565638) * t + 3 * 1.781478 * t^2
     + 4 * (- 1.821256) * t^3 + 5 * 1.330274 * t^4"

text \<open>The one-sigma move as the specification words it: price times IV times the time factor.\<close>

definition spec_move :: "real \<Rightarrow> real \<Rightarrow> real \<Rightarrow> real" where
  "spec_move price iv days = price * iv * sqrt (days / 365)"

section \<open>Strategy candidates\<close>

text \<open>
  The objects the generators return. A property that a generator does not set is
  \<open>None\<close>. The display name and the rationale strings are presentation only and are
  left out; \<open>strikes\<close> keeps the order of the object literal. A number that the source
  obtains by a division is a \<open>jsnum\<close>, so that a zero divisor gives what JavaScript gives.
\<close>

record strategy =
  type :: string
  direction :: "string option"
  strikes :: "(string \<times> real) list"
  contracts :: jsnum
  netCredit :: "jsnum option"
  netDebit :: "jsnum option"
  maxProfit :: "jsnum option"
  maxRisk :: jsnum
  winRate :: real
  roc :: jsnum
  strategyType :: "string option"
  usingRealPrices :: "bool option"

text \<open>
  The \<open>params\<close> object of \<open>generateAllStrategies\<close> and of
  \<open>generateStrategiesWithRealPrices\<close>, flattened: \<open>sigmaLower\<close> and \<open>sigmaUpper\<close> are
  \<open>volatilityRange.oneSigma.lower\<close> and \<open>.upper\<close>, \<open>trend\<close> and \<open>taScoreValue\<close> are
  \<open>taScore.trend\<close> and \<open>taScore.score\<close>, \<open>ivRank\<close> is \<open>ivRank.ivRank\<close>,
  \<open>gexAvailable\<close> and \<open>gamma_environment\<close> are the fields of \<open>gexData\<close>, \<open>calls\<close> and
  \<open>puts\<close> the two sides of \<open>optionsChain\<close>. The inputs are finite numbers.
\<close>

record params =
  currentPrice :: real
  atmIV :: real
  dte :: real
  sigmaLower :: real
  sigmaUpper :: real
  trend :: string
  taScoreValue :: real
  ivRank :: real
  gexAvailable :: bool
  gamma_environment :: string
  calls :: "optionData list"
  puts :: "optionData list"

text \<open>\<open>Math.round(x / 5) * 5\<close>\<close>

definition roundTo5 :: "real \<Rightarrow> real" where
  "roundTo5 x = of_int (js_round (x / 5)) * 5"

text \<open>\<open>Math.round((a / b) * 100)\<close>\<close>

definition rocOf :: "jsnum \<Rightarrow> jsnum \<Rightarrow> jsnum" where
  "rocOf a b = jround (jmul (jdiv a b) (Fin 100))"

section \<open>Estimated-mode generators (enhancedStrategyEngine.js)\<close>

definition generateIronCondor :: "params \<Rightarrow> strategy" where
  "generateIronCondor p =
     (let putSellStrike = roundTo5 (sigmaLower p);
          putBuyStrike = putSellStrike - 10;
          callSellStrike = roundTo5 (sigmaUpper p);
          callBuyStrike = callSellStrike + 10;
          creditPerContract = atmIV p * currentPrice p * 0.025;
          contracts = jceil (jdiv (Fin 150) (Fin creditPerContract));
          netCredit = jround (jmul (Fin creditPerContract) contracts);
          maxRisk = jsub (jmul (Fin (10 * 100)) contracts) netCredit
      in \<lparr>type = ''iron_condor'',
          direction = Some ''neutral'',
          strikes = [(''putBuy'', putBuyStrike), (''putSell'', putSellStrike),
                     (''callSell'', callSellStrike), (''callBuy'', callBuyStrike)],
          contracts = contracts,
          netCredit = Some netCredit,
          netDebit = None,
          maxProfit = None,
          maxRisk = maxRisk,
          winRate = 68 + (if ivRank p > 70 then 7 else if ivRank p > 50 then 4 else 0),
          roc = rocOf netCredit maxRisk,
          strategyType = Some ''seller'',
          usingRealPrices = None\<rparr>)"

definition generateVerticalSpread :: "params \<Rightarrow> strategy" where
  "generateVerticalSpread p =
     (let isBullish = (trend p = ''bullish'' \<or> trend p = ''neutral'');
          spreadWidth = 10;
          sellStrike = (if isBullish then roundTo5 (sigmaLower p) else roundTo5 (sigmaUpper p));
          buyStrike = (if isBullish then sellStrike - spreadWidth else sellStrike + spreadWidth);
          creditPerContract = atmIV p * currentPrice p * 0.018;
          contracts = jceil (jdiv (Fin 150) (Fin creditPerContract));
          netCredit = jround (jmul (Fin creditPerContract) contracts);
          maxRisk = jsub (jmul (Fin (spreadWidth * 100)) contracts) netCredit
      in \<lparr>type = ''vertical_spread'',
          direction = Some (if isBullish then ''bullish'' else ''bearish''),
          strikes = [(''buy'', buyStrike), (''sell'', sellStrike)],
          contracts = contracts,
          netCredit = Some netCredit,
          netDebit = None,
          maxProfit = None,
          maxRisk = maxRisk,
          winRate = 72 + (if ivRank p > 60 then 5 else 0),
          roc = rocOf netCredit maxRisk,
          strategyType = Some ''seller'',
          usingRealPrices = None\<rparr>)"

definition generateButterfly :: "params \<Rightarrow> strategy" where
  "generateButterfly p =
     (let centerStrike = roundTo5 (currentPrice p);
          wingWidth = 10;
          lowerStrike = centerStrike - wingWidth;
          upperStrike = centerStrike + wingWidth;
          debitPerContract = atmIV p * currentPrice p * 0.012;
          contracts = jceil (jdiv (Fin 150) (Fin (wingWidth * 100 - debitPerContract)));
          netDebit = jround (jmul (Fin debitPerContract) contracts);
          maxProfit = jsub (jmul (Fin (wingWidth * 100)) contracts) netDebit;
          maxRisk = netDebit
      in \<lparr>type = ''butterfly'',
          direction = Some ''neutral'',
          strikes = [(''lower'', lowerStrike), (''center'', centerStrike),
                     (''upper'', upperStrike)],
          contracts = contracts,
          netCredit = None,
          netDebit = Some netDebit,
          maxProfit = Some maxProfit,
          maxRisk = maxRisk,
          winRate = 55 + (if ivRank p < 40 then 10 else 0),
          roc = rocOf maxProfit netDebit,
          strategyType = Some ''buyer'',
          usingRealPrices = None\<rparr>)"

definition generateCashSecuredPut :: "params \<Rightarrow> strategy" where
  "generateCashSecuredPut p =
     (let sellStrike = roundTo5 (currentPrice p * 0.95);
          creditPerContract = atmIV p * currentPrice p * 0.012;
          contracts = jceil (jdiv (Fin 150) (Fin creditPerContract));
          netCredit = jround (jmul (Fin creditPerContract) contracts);
          maxRisk = jsub (jmul (Fin (sellStrike * 100)) contracts) netCredit
      in \<lparr>type = ''cash_secured_put'',
          direction = Some ''bullish'',
          strikes = [(''sell'', sellStrike)],
          contracts = contracts,
          netCredit = Some netCredit,
          netDebit = None,
          maxProfit = None,
          maxRisk = maxRisk,
          winRate = 76,
          roc = rocOf netCredit maxRisk,
          strategyType = Some ''seller'',
          usingRealPrices = None\<rparr>)"

definition generateCalendarSpread :: "params \<Rightarrow> strategy" where
  "generateCalendarSpread p =
     (let strike = roundTo5 (currentPrice p);
          shortDTE = dte p;
          longDTE = dte p + 7;
          shortCredit = atmIV p * currentPrice p * 0.015;
          longDebit = atmIV p * currentPrice p * 0.022;
          netDebit = longDebit - shortCredit;
          contracts = jceil (jdiv (Fin 150) (Fin (shortCredit * 0.7)));
          netDebitTotal = jround (jmul (Fin netDebit) contracts);
          maxProfit = jround (jmul (Fin (shortCredit * 0.7)) contracts);
          maxRisk = netDebitTotal
      in \<lparr>type = ''calendar_spread'',
          direction = Some ''neutral'',
          strikes = [(''strike'', strike), (''shortDTE'', shortDTE), (''longDTE'', longDTE)],
          contracts = contracts,
          netCredit = None,
          netDebit = Some netDebitTotal,
          maxProfit = Some maxProfit,
          maxRisk = maxRisk,
          winRate = 62,
          roc = rocOf maxProfit netDebitTotal,
          strategyType = Some ''buyer'',
          usingRealPrices = None\<rparr>)"

definition generateDiagonalSpread :: "params \<Rightarrow> strategy" where
  "generateDiagonalSpread p =
     (let isBullish = (trend p = ''bullish'');
          shortStrike = (if isBullish then roundTo5 (currentPrice p * 1.03)
                         else roundTo5 (currentPrice p * 0.97));
          longStrike = (if isBullish then roundTo5 (currentPrice p * 1.05)
                        else roundTo5 (currentPrice p * 0.95));
          shortDTE = dte p;
          longDTE = dte p + 7;
          shortCredit = atmIV p * currentPrice p * 0.014;
          longDebit = atmIV p * currentPrice p * 0.020;
          netDebit = longDebit - shortCredit;
          contracts = jceil (jdiv (Fin 150) (Fin (shortCredit * 0.6)));
          netDebitTotal = jround (jmul (Fin netDebit) contracts);
          maxProfit = jround (jmul (Fin (shortCredit * 0.6)) contracts);
          maxRisk = netDebitTotal
      in \<lparr>type = ''diagonal_spread'',
          direction = Some (if isBullish then ''bullish'' else ''bearish''),
          strikes = [(''shortStrike'', shortStrike), (''longStrike'', longStrike),
                     (''shortDTE'', shortDTE), (''longDTE'', longDTE)],
          contracts = contracts,
          netCredit = None,
          netDebit = Some netDebitTotal,
          maxProfit = Some maxProfit,
          maxRisk = maxRisk,
          winRate = 58,
          roc = rocOf maxProfit netDebitTotal,
          strategyType = Some ''buyer'',
          usingRealPrices = None\<rparr>)"

text \<open>
  The \<open>strategies\<close> array of \<open>generateAllStrategies\<close> when the six gates have run,
  before the scores are computed: each gate either pushes its generator's candidate or
  does nothing.
\<close>

definition allCandidates :: "params \<Rightarrow> strategy list" where
  "allCandidates p =
     (if ivRank p \<ge> 45 then [generateIronCondor p] else [])
     @ [generateVerticalSpread p]
     @ (if ivRank p \<le> 60 then [generateButterfly p] else [])
     @ (if trend p \<noteq> ''bearish'' then [generateCashSecuredPut p] else [])
     @ (if dte p \<ge> 7 then [generateCalendarSpread p] else [])
     @ (if dte p \<ge> 7 \<and> trend p \<noteq> ''neutral'' then [generateDiagonalSpread p] else [])"

section \<open>Scoring and the whole pipeline (enhancedStrategyEngine.js)\<close>

text \<open>\<open>Math.min((roc / 50) * 20, 20)\<close>\<close>

definition rocTerm :: "jsnum \<Rightarrow> jsnum" where
  "rocTerm r = jmin (jmul (jdiv r (Fin 50)) (Fin 20)) (Fin 20)"

definition calculateScore :: "strategy \<Rightarrow> params \<Rightarrow> jsnum" where
  "calculateScore s p =
     (let score = Fin 0;
          score = jadd score (Fin ((winRate s / 100) * 25));
          score = jadd score (rocTerm (roc s));
          score = jadd score (Fin ((taScoreValue p / 100) * 15));
          score = jadd score (Fin
            (if strategyType s = Some ''seller''
             then (if ivRank p \<ge> 70 then 15 else if ivRank p \<ge> 50 then 12
                   else if ivRank p \<ge> 30 then 8 else 4)
             else (if ivRank p < 30 then 15 else if ivRank p < 50 then 10 else 5)));
          score = jadd score (Fin
            (if direction s = Some ''neutral'' then 10
             else if direction s = Some (trend p) then 10
             else if direction s \<noteq> Some (trend p) \<and> trend p \<noteq> ''neutral'' then 3
             else 7));
          score = jadd score (Fin
            (if gexAvailable p
             then (if type s = ''iron_condor'' \<and> gamma_environment p = ''positive'' then 10
                   else if strategyType s = Some ''buyer'' \<and> gamma_environment p = ''negative''
                   then 10
                   else 6)
             else 5));
          score = jadd score (Fin 5)
      in jround (jmax (Fin 0) (jmin (Fin 100) score)))"

text \<open>
  The score is written into every candidate, a NaN as well, and the candidates are
  ranked.
\<close>

definition generateAllStrategies :: "params \<Rightarrow> strategy ranked list" where
  "generateAllStrategies p =
     rankStrategies (map (\<lambda>s. \<lparr>cand = s, score = calculateScore s p\<rparr>) (allCandidates p))"

section \<open>Real-price mode (the aggregator with generateStrategiesWithRealPrices)\<close>

definition hasOptions :: "params \<Rightarrow> bool" where
  "hasOptions p = (length (calls p) > 0 \<and> length (puts p) > 0)"

text \<open>Block 1 of \<open>generateStrategiesWithRealPrices\<close>: what it pushes.\<close>

definition realIronCondor :: "params \<Rightarrow> strategy list" where
  "realIronCondor p =
     (if ivRank p \<ge> 45 \<and> hasOptions p then
        (let putSellStrike = roundTo5 (sigmaLower p);
             putBuyStrike = putSellStrike - 10;
             callSellStrike = roundTo5 (sigmaUpper p);
             callBuyStrike = callSellStrike + 10
         in case (findOptionByStrike (puts p) putSellStrike,
                  findOptionByStrike (puts p) putBuyStrike,
                  findOptionByStrike (calls p) callSellStrike,
                  findOptionByStrike (calls p) callBuyStrike) of
              (Some putSellOpt, Some putBuyOpt, Some callSellOpt, Some callBuyOpt) \<Rightarrow>
                (let creditPerContract =
                       (mid putSellOpt - mid putBuyOpt + mid callSellOpt - mid callBuyOpt) * 100;
                     contracts = jmax (Fin 1) (jceil (jdiv (Fin 150) (Fin creditPerContract)));
                     netCredit = jround (jmul (Fin creditPerContract) contracts);
                     maxRisk = jround (jsub
                       (jmul (Fin ((putSellStrike - putBuyStrike) * 100)) contracts) netCredit)
                 in [\<lparr>type = ''iron_condor'',
                      direction = None,
                      strikes = [(''putBuy'', strike putBuyOpt), (''putSell'', strike putSellOpt),
                                 (''callSell'', strike callSellOpt),
                                 (''callBuy'', strike callBuyOpt)],
                      contracts = contracts,
                      netCredit = Some netCredit,
                      netDebit = None,
                      maxProfit = None,
                      maxRisk = maxRisk,
                      winRate = 68 + (if ivRank p > 70 then 7 else 4),
                      roc = rocOf netCredit maxRisk,
                      strategyType = None,
                      usingRealPrices = Some True\<rparr>])
            | _ \<Rightarrow> [])
      else [])"

text \<open>Block 2.\<close>

definition realVerticalSpread :: "params \<Rightarrow> strategy list" where
  "realVerticalSpread p =
     (if hasOptions p then
        (let isBullish = (trend p = ''bullish'' \<or> trend p = ''neutral'');
             sellStrike = (if isBullish then roundTo5 (sigmaLower p)
                           else roundTo5 (sigmaUpper p));
             buyStrike = (if isBullish then sellStrike - 10 else sellStrike + 10);
             sellOpt = (if isBullish then findOptionByStrike (puts p) sellStrike
                        else findOptionByStrike (calls p) sellStrike);
             buyOpt = (if isBullish then findOptionByStrike (puts p) buyStrike
                       else findOptionByStrike (calls p) buyStrike)
         in case (sellOpt, buyOpt) of
              (Some sellOpt, Some buyOpt) \<Rightarrow>
                (let creditPerContract = (mid sellOpt - mid buyOpt) * 100;
                     contracts = jmax (Fin 1) (jceil (jdiv (Fin 150) (Fin creditPerContract)));
                     netCredit = jround (jmul (Fin creditPerContract) contracts);
                     maxRisk = jround (jsub
                       (jmul (Fin (\<bar>sellStrike - buyStrike\<bar> * 100)) contracts) netCredit)
                 in [\<lparr>type = ''vertical_spread'',
                      direction = None,
                      strikes = [(''sell'', strike sellOpt), (''buy'', strike buyOpt)],
                      contracts = contracts,
                      netCredit = Some netCredit,
                      netDebit = None,
                      maxProfit = None,
                      maxRisk = maxRisk,
                      winRate = 72 + (if ivRank p > 60 then 8 else 0),
                      roc = rocOf netCredit maxRisk,
                      strategyType = None,
                      usingRealPrices = Some True\<rparr>])
            | _ \<Rightarrow> [])
      else [])"

text \<open>Block 3.\<close>

definition realCashSecuredPut :: "params \<Rightarrow> strategy list" where
  "realCashSecuredPut p =
     (if trend p \<noteq> ''bearish'' \<and> hasOptions p then
        (let sellStrike = roundTo5 (currentPrice p * 0.95)
         in case findOptionByStrike (puts p) sellStrike of
              Some sellOpt \<Rightarrow>
                (let creditPerContract = mid sellOpt * 100;
                     contracts = jmax (Fin 1) (jceil (jdiv (Fin 150) (Fin creditPerContract)));
                     netCredit = jround (jmul (Fin creditPerContract) contracts);
                     maxRisk = jround (jsub
                       (jmul (Fin (strike sellOpt * 100)) contracts) netCredit)
                 in [\<lparr>type = ''cash_secured_put'',
                      direction = None,
                      strikes = [(''sell'', strike sellOpt)],
                      contracts = contracts,
                      netCredit = Some netCredit,
                      netDebit = None,
                      maxProfit = None,
                      maxRisk = maxRisk,
                      winRate = 76,
                      roc = rocOf netCredit maxRisk,
                      strategyType = None,
                      usingRealPrices = Some True\<rparr>])
            | None \<Rightarrow> [])
      else [])"

definition generateFallbackStrategy :: "params \<Rightarrow> strategy" where
  "generateFallbackStrategy p =
     (let putSell = roundTo5 (sigmaLower p);
          credit = atmIV p * currentPrice p * 0.025;
          contracts = jceil (jdiv (Fin 150) (Fin credit));
          netCredit = jround (jmul (Fin credit) contracts);
          maxRisk = jsub (jmul (Fin (10 * 100)) contracts) netCredit
      in \<lparr>type = ''iron_condor'',
          direction = None,
          strikes = [(''putBuy'', putSell - 10), (''putSell'', putSell),
                     (''callSell'', roundTo5 (sigmaUpper p)),
                     (''callBuy'', roundTo5 (sigmaUpper p) + 10)],
          contracts = contracts,
          netCredit = Some netCredit,
          netDebit = None,
          maxProfit = None,
          maxRisk = maxRisk,
          winRate = 68,
          roc = rocOf netCredit maxRisk,
          strategyType = None,
          usingRealPrices = Some False\<rparr>)"

text \<open>
  The \<open>strategies\<close> array of \<open>generateStrategiesWithRealPrices\<close> before the scores
  are computed: the three blocks, and the fallback candidate only when the three blocks
  pushed nothing.
\<close>

definition realPriceCandidates :: "params \<Rightarrow> strategy list" where
  "realPriceCandidates p =
     (let strategies = realIronCondor p @ realVerticalSpread p @ realCashSecuredPut p
      in if length strategies = 0 then strategies @ [generateFallbackStrategy p]
         else strategies)"

definition calcScore :: "strategy \<Rightarrow> params \<Rightarrow> jsnum" where
  "calcScore s p =
     (let score = Fin ((winRate s / 100) * 25);
          score = jadd score (rocTerm (roc s));
          score = jadd score (Fin ((taScoreValue p / 100) * 15));
          isSeller = (type s = ''iron_condor'' \<or> type s = ''vertical_spread''
                      \<or> type s = ''cash_secured_put'');
          score = jadd score (Fin
            (if isSeller
             then (if ivRank p \<ge> 70 then 15 else if ivRank p \<ge> 50 then 12 else 8)
             else (if ivRank p < 30 then 15 else if ivRank p < 50 then 10 else 5)));
          score = jadd score (Fin 10);
          score = jadd score (Fin
            (if gexAvailable p \<and> type s = ''iron_condor'' \<and> gamma_environment p = ''positive''
             then 10 else 6));
          score = jadd score (Fin (if usingRealPrices s = Some True then 5 else 3))
      in jround (jmax (Fin 0) (jmin (Fin 100) score)))"

definition generateStrategiesWithRealPrices :: "params \<Rightarrow> strategy ranked list" where
  "generateStrategiesWithRealPrices p =
     rankStrategies (map (\<lambda>s. \<lparr>cand = s, score = calcScore s p\<rparr>) (realPriceCandidates p))"

section \<open>The sizing rule of the specification\<close>

text \<open>
  The rule as the specification words it, to compare the generators with:
  \<open>contracts = ceil(minimumNetPremium / netPremiumPerContract)\<close> with the
  \<open>minimumNetPremium\<close> of 150.
\<close>

definition spec_contracts :: "real \<Rightarrow> int" where
  "spec_contracts netPremiumPerContract = js_ceil (150 / netPremiumPerContract)"

section \<open>Scoring system (scoringSystem.js)\<close>

text \<open>
  The context of \<open>calculateStrategyScore\<close>: \<open>context.taScore.score\<close> and
  \<open>context.taScore.trend\<close>, \<open>context.ivRank.ivRank\<close>,
  \<open>context.gexData.gamma_environment\<close> (\<open>None\<close> when \<open>gexData\<close> or the field is
  missing) and \<open>context.earnings?.hasEarningsNear\<close> (false when \<open>earnings\<close> is
  missing). The function does not read the trend.
\<close>

record scoringContext =
  ctxTaScore :: real
  ctxTrend :: string
  ctxIvRank :: real
  ctxGammaEnvironment :: "string option"
  hasEarningsNear :: bool

definition isSellerType :: "strategy \<Rightarrow> bool" where
  "isSellerType s =
     (type s = ''iron_condor'' \<or> type s = ''credit_spread'' \<or> type s = ''cash_secured_put'')"

definition calculateIVRScore :: "strategy \<Rightarrow> real \<Rightarrow> real" where
  "calculateIVRScore s ivr =
     (if isSellerType s then
        (if ivr \<ge> 75 then 15 else if ivr \<ge> 50 then 12 else if ivr \<ge> 25 then 8 else 4)
      else if ivr < 25 then 15
      else if ivr < 50 then 10
      else 5)"

text \<open>The empty string is falsy, like a missing field.\<close>

definition calculateGEXScore :: "strategy \<Rightarrow> string option \<Rightarrow> real" where
  "calculateGEXScore s gexEnvironment =
     (case gexEnvironment of
        None \<Rightarrow> 5
      | Some gamma_env \<Rightarrow>
          if gamma_env = [] then 5
          else if isSellerType s then (if gamma_env = ''positive'' then 10 else 6)
          else (if gamma_env = ''negative'' then 10 else 6))"

definition calculateStrategyScore :: "strategy \<Rightarrow> scoringContext \<Rightarrow> jsnum" where
  "calculateStrategyScore s context =
     (let score = Fin 0;
          winRateScore = (winRate s / 100) * 25;
          score = jadd score (Fin winRateScore);
          rocScore = rocTerm (roc s);
          score = jadd score rocScore;
          taScore = (ctxTaScore context / 100) * 15;
          score = jadd score (Fin taScore);
          ivrScore = calculateIVRScore s (ctxIvRank context);
          score = jadd score (Fin ivrScore);
          gexScore = calculateGEXScore s (ctxGammaEnvironment context);
          score = jadd score (Fin gexScore);
          liquidityScore = 10;
          score = jadd score (Fin liquidityScore);
          greeksScore = 5;
          score = jadd score (Fin greeksScore);
          score = (if hasEarningsNear context then jsub score (Fin 10) else score)
      in jmax (Fin 0) (jmin (Fin 100) score))"

text \<open>
  \<open>scoreAndRankStrategies\<close> stores \<open>Math.round(score)\<close> in every strategy and sorts
  by \<open>b.score - a.score\<close>; it neither truncates nor assigns ranks.
\<close>

definition scoreAndRankStrategies :: "strategy list \<Rightarrow> scoringContext \<Rightarrow> strategy scored list" where
  "scoreAndRankStrategies strategies marketData =
     (let scoredStrategies =
            map (\<lambda>s. \<lparr>cand = s, score = jround (calculateStrategyScore s marketData)\<rparr>)
              strategies
      in sortByScore scoredStrategies)"

section \<open>The scoring formula of the specification\<close>

text \<open>
  Modelled from the specification (section 4.4), to compare \<open>calculateStrategyScore\<close>
  with: the win-rate, return, technical, IV-rank-fit, direction-fit and gamma-fit terms,
  a liquidity term that the specification leaves between 5 and 10 and that is an argument
  here, and the earnings penalty; the sum is clamped to [0, 100] and rounded. A strategy
  is a net seller when its \<open>strategyType\<close> says so, and neutral when its direction
  is.
\<close>

definition spec_ivRankFit :: "bool \<Rightarrow> real \<Rightarrow> real" where
  "spec_ivRankFit seller ivr =
     (if seller then (if ivr \<ge> 70 then 15 else if ivr \<ge> 50 then 12 else if ivr \<ge> 30 then 8 else 4)
      else (if ivr < 30 then 15 else if ivr < 50 then 10 else 5))"

definition spec_directionFit :: "string \<Rightarrow> string \<Rightarrow> real" where
  "spec_directionFit dir marketTrend =
     (if dir = ''neutral'' then 10
      else if dir = marketTrend then 10
      else if marketTrend = ''neutral'' then 7
      else 3)"

definition spec_gammaFit :: "bool \<Rightarrow> string option \<Rightarrow> real" where
  "spec_gammaFit seller gamma =
     (case gamma of
        None \<Rightarrow> 5
      | Some env \<Rightarrow>
          if seller then (if env = ''positive'' then 10 else 6)
          else (if env = ''negative'' then 10 else 6))"

definition spec_score :: "real \<Rightarrow> real \<Rightarrow> bool \<Rightarrow> string \<Rightarrow> scoringContext \<Rightarrow> real \<Rightarrow> int" where
  "spec_score winRatePct rocPct seller dir context liquidity =
     js_round (max 0 (min 100
       ((winRatePct / 100) * 25
        + min ((rocPct / 50) * 20) 20
        + (ctxTaScore context / 100) * 15
        + spec_ivRankFit seller (ctxIvRank context)
        + spec_directionFit dir (ctxTrend context)
        + spec_gammaFit seller (ctxGammaEnvironment context)
        + liquidity
        - (if hasEarningsNear context then 10 else 0))))"

section \<open>Example data\<close>

text \<open>One side of a chain, with two strikes at the same distance from 100.\<close>

definition exampleSide :: "optionData list" where
  "exampleSide =
     [\<lparr>strike = 95, bid = 1, ask = 2, mid = 3 / 2\<rparr>,
      \<lparr>strike = 105, bid = 2, ask = 3, mid = 5 / 2\<rparr>,
      \<lparr>strike = 110, bid = 3, ask = 4, mid = 7 / 2\<rparr>]"



text \<open>
  Scenario A of the specification: price 250.50, IV 0.35, 7 days, IV rank 65, a bullish
  trend and positive gamma; the one-sigma band is [238.95, 262.05]. The chain has a call
  side and no puts.
\<close>

definition exampleParams :: params where
  "exampleParams =
     \<lparr>currentPrice = 250.5, atmIV = 0.35, dte = 7,
      sigmaLower = 238.95, sigmaUpper = 262.05,
      trend = ''bullish'', taScoreValue = 65, ivRank = 65,
      gexAvailable = True, gamma_environment = ''positive'',
      calls = exampleSide, puts = []\<rparr>"

text \<open>
  Scenario A with a chain around the band: puts at 230 and 240, calls at 260 and 270.
\<close>

definition exampleChainParams :: params where
  "exampleChainParams = exampleParams
     \<lparr>calls := [\<lparr>strike = 260, bid = 7 / 4, ask = 2, mid = 15 / 8\<rparr>,
                \<lparr>strike = 270, bid = 1 / 2, ask = 3 / 4, mid = 5 / 8\<rparr>],
      puts := [\<lparr>strike = 230, bid = 1 / 2, ask = 1, mid = 3 / 4\<rparr>,
               \<lparr>strike = 240, bid = 7 / 4, ask = 9 / 4, mid = 2\<rparr>]\<rparr>"

text \<open>
  Three candidates of the kinds that \<open>scoreAndRankStrategies\<close> receives: a cash-secured
  put, an iron condor and a credit spread.
\<close>

definition exampleIronCondor :: strategy where
  "exampleIronCondor =
     \<lparr>type = ''iron_condor'', direction = None,
      strikes = [(''putBuy'', 235), (''putSell'', 250), (''callSell'', 250), (''callBuy'', 265)],
      contracts = Fin 3, netCredit = Some (Fin 330), netDebit = None, maxProfit = None,
      maxRisk = Fin 4170, winRate = 60, roc = Fin 8, strategyType = None,
      usingRealPrices = None\<rparr>"

definition exampleStrategies :: "strategy list" where
  "exampleStrategies =
     [\<lparr>type = ''cash_secured_put'', direction = None,
       strikes = [(''sell'', 240)],
       contracts = Fin 3, netCredit = Some (Fin 240), netDebit = None, maxProfit = None,
       maxRisk = Fin 71760, winRate = 80, roc = Fin 1, strategyType = None,
       usingRealPrices = None\<rparr>,
      exampleIronCondor,
      \<lparr>type = ''credit_spread'', direction = Some ''put'',
       strikes = [(''sell'', 250), (''buy'', 235)],
       contracts = Fin 3, netCredit = Some (Fin 180), netDebit = None, maxProfit = None,
       maxRisk = Fin 4320, winRate = 84, roc = Fin 4, strategyType = None,
       usingRealPrices = None\<rparr>]"

text \<open>A scoring context for scenario A, with an earnings date near.\<close>



definition exampleContext :: scoringContext where
  "exampleContext =
     \<lparr>ctxTaScore = 65, ctxTrend = ''bullish'', ctxIvRank = 65,
      ctxGammaEnvironment = Some ''positive'', hasEarningsNear = True\<rparr>"

text \<open>The same context with an IV rank of 72 and no earnings date near.\<close>

definition exampleContext72 :: scoringContext where
  "exampleContext72 = exampleContext\<lparr>ctxIvRank := 72, hasEarningsNear := False\<rparr>"

section \<open>Properties of the options chain matcher\<close>

lemma foldl_closer_split:
  "\<exists>pre post. a # xs = pre @ foldl (closer t) a xs # post
     \<and> (\<forall>opt \<in> set pre. \<bar>strike (foldl (closer t) a xs) - t\<bar> < \<bar>strike opt - t\<bar>)
     \<and> (\<forall>opt \<in> set post. \<bar>strike (foldl (closer t) a xs) - t\<bar> \<le> \<bar>strike opt - t\<bar>)"
proof (induction xs rule: rev_induct)
  case Nil
  show ?case by (intro exI[of _ "[]"]) simp
next
  case (snoc x xs)
  let ?r = "foldl (closer t) a xs"
  let ?d = "\<lambda>opt. \<bar>strike opt - t\<bar>"
  from snoc obtain pre post where ys: "a # xs = pre @ ?r # post"
    and before: "\<forall>opt \<in> set pre. ?d ?r < ?d opt"
    and after: "\<forall>opt \<in> set post. ?d ?r \<le> ?d opt"
    by blast
  show ?case
  proof (cases "?d x < ?d ?r")
    case True
    then have r: "foldl (closer t) a (xs @ [x]) = x"
      by (simp add: closer_def)
    have "set (a # xs) = set pre \<union> {?r} \<union> set post"
      by (subst ys) auto
    with before after True have "\<forall>opt \<in> set (a # xs). ?d x < ?d opt"
      by fastforce
    moreover have "a # xs @ [x] = (a # xs) @ x # []" by simp
    ultimately show ?thesis
      unfolding r by (intro exI[of _ "a # xs"] exI[of _ "[]"]) simp
  next
    case False
    then have r: "foldl (closer t) a (xs @ [x]) = ?r"
      by (simp add: closer_def)
    have "a # xs @ [x] = pre @ ?r # (post @ [x])"
      using ys by simp
    moreover have "\<forall>opt \<in> set (post @ [x]). ?d ?r \<le> ?d opt"
      using after False by auto
    ultimately show ?thesis
      unfolding r using before by blast
  qed
qed

text \<open>
  C9. On an empty side list \<open>findOptionByStrike\<close> returns \<open>null\<close>. On a non-empty one it
  returns an element of the list whose strike is at least as close to the target as every
  other strike, and every element in front of it is strictly farther from the target: among
  the closest contracts the first one of the left-to-right reduction wins.
\<close>

theorem findOptionByStrike_nearest:
  "findOptionByStrike [] targetStrike = None \<and>
   (options \<noteq> [] \<longrightarrow>
     (\<exists>pre found post.
        findOptionByStrike options targetStrike = Some found
      \<and> options = pre @ found # post
      \<and> (\<forall>opt \<in> set pre. \<bar>strike found - targetStrike\<bar> < \<bar>strike opt - targetStrike\<bar>)
      \<and> (\<forall>opt \<in> set post. \<bar>strike found - targetStrike\<bar> \<le> \<bar>strike opt - targetStrike\<bar>)))"
proof (cases options)
  case Nil
  then show ?thesis by (simp add: findOptionByStrike_def)
next
  case (Cons first others)
  from foldl_closer_split[of first others targetStrike] show ?thesis
    unfolding Cons findOptionByStrike_def by (simp del: foldl_Cons)
qed

theorem findOptionByStrike_nearest_witness:
  "exampleSide \<noteq> []
   \<and> findOptionByStrike exampleSide 100 = Some \<lparr>strike = 95, bid = 1, ask = 2, mid = 3 / 2\<rparr>
   \<and> (\<exists>pre found post.
        findOptionByStrike exampleSide 100 = Some found
      \<and> exampleSide = pre @ found # post
      \<and> (\<forall>opt \<in> set pre. \<bar>strike found - 100\<bar> < \<bar>strike opt - 100\<bar>)
      \<and> (\<forall>opt \<in> set post. \<bar>strike found - 100\<bar> \<le> \<bar>strike opt - 100\<bar>))"
proof -
  have ne: "exampleSide \<noteq> []"
    by (simp add: exampleSide_def)
  have val: "findOptionByStrike exampleSide 100
      = Some \<lparr>strike = 95, bid = 1, ask = 2, mid = 3 / 2\<rparr>"
    by (simp add: exampleSide_def findOptionByStrike_def closer_def)
  from findOptionByStrike_nearest[of 100 exampleSide] ne val show ?thesis
    by blast
qed

section \<open>Properties of the sort\<close>

lemma mset_binaryInsertionSort:
  "mset (binaryInsertionSort lt ws rest) = mset ws + mset rest"
proof (induction rest arbitrary: ws)
  case Nil
  show ?case by simp
next
  case (Cons pivot rest)
  have "mset (take n ws @ pivot # drop n ws) = mset ws + {#pivot#}" for n
    by (metis append_take_drop_id mset.simps(2) mset_append union_mset_add_mset_right
        add_mset_add_single)
  then show ?case
    by (simp add: Cons.IH Let_def)
qed

lemma mset_arraySort: "mset (arraySort lt ws) = mset ws"
proof (cases ws)
  case Nil
  then show ?thesis by (simp add: arraySort_def)
next
  case (Cons x xs)
  show ?thesis
  proof (cases xs)
    case Nil
    with Cons show ?thesis by (simp add: arraySort_def)
  next
    case (Cons y ys)
    have "mset (take n ws) + mset (drop n ws) = mset ws" for n
      by (metis append_take_drop_id mset_append)
    then show ?thesis
      using \<open>ws = x # xs\<close> Cons
      by (simp add: arraySort_def Let_def mset_binaryInsertionSort del: take_Suc_Cons drop_Suc_Cons)
  qed
qed



text \<open>The binary search on a part that is sorted by a key which the comparator follows.\<close>

lemma findInsert_sorted:
  "(\<And>i. i < length ws \<Longrightarrow> lt pivot (ws ! i) \<longleftrightarrow> c \<le> i) \<Longrightarrow>
   left \<le> c \<Longrightarrow> c \<le> right \<Longrightarrow> right \<le> length ws \<Longrightarrow>
   findInsert lt pivot ws left right = c"
proof (induction lt pivot ws left right rule: findInsert.induct)
  case (1 lt pivot ws left right)
  note key = 1(3)
  show ?case
  proof (cases "left < right")
    case False
    with 1(4,5) show ?thesis by (simp add: findInsert.simps[of _ _ _ left right])
  next
    case True
    define mid where "mid = left + (right - left) div 2"
    have m: "left \<le> mid" "mid < right" using True by (auto simp: mid_def)
    show ?thesis
    proof (cases "lt pivot (ws ! mid)")
      case lt: True
      then have "c \<le> mid" using key[of mid] m 1(6) by simp
      with 1(1)[OF True mid_def lt key] 1(4) m 1(6) True lt show ?thesis
        by (subst findInsert.simps) (simp add: Let_def mid_def)
    next
      case nlt: False
      then have "mid < c" using key[of mid] m 1(6) by simp
      with 1(2)[OF True mid_def nlt key] 1(5) m 1(6) True nlt show ?thesis
        by (subst findInsert.simps) (simp add: Let_def mid_def)
    qed
  qed
qed

lemma sorted_key_split:
  assumes "sorted (map k ws)"
  shows "\<forall>y \<in> set (dropWhile (\<lambda>y. k y \<le> (v::real)) ws). v < k y"
proof (cases "dropWhile (\<lambda>y. k y \<le> v) ws")
  case Nil
  show ?thesis unfolding Nil by simp
next
  case (Cons d ds)
  have d: "v < k d" using hd_dropWhile[of "\<lambda>y. k y \<le> v" ws] Cons by auto
  have "sorted (map k (dropWhile (\<lambda>y. k y \<le> v) ws))"
    using assms by (metis sorted_append takeWhile_dropWhile_id map_append)
  then have "\<forall>y \<in> set ds. k d \<le> k y" using Cons by auto
  with d Cons show ?thesis by auto
qed

lemma findInsert_key:
  assumes s: "sorted (map k ws)"
    and lt: "\<And>y. y \<in> set ws \<Longrightarrow> lt pivot y \<longleftrightarrow> k pivot < (k y :: real)"
  shows "take (findInsert lt pivot ws 0 (length ws)) ws = takeWhile (\<lambda>y. k y \<le> k pivot) ws"
    and "drop (findInsert lt pivot ws 0 (length ws)) ws = dropWhile (\<lambda>y. k y \<le> k pivot) ws"
proof -
  let ?P = "\<lambda>y. k y \<le> k pivot"
  define c where "c = length (takeWhile ?P ws)"
  have cl: "c \<le> length ws" by (simp add: c_def length_takeWhile_le)
  have "lt pivot (ws ! i) \<longleftrightarrow> c \<le> i" if i: "i < length ws" for i
  proof (cases "i < c")
    case True
    then have "ws ! i = takeWhile ?P ws ! i" by (simp add: c_def takeWhile_nth)
    moreover have "takeWhile ?P ws ! i \<in> set (takeWhile ?P ws)" using True by (simp add: c_def)
    ultimately have "?P (ws ! i)" by (metis set_takeWhileD)
    then show ?thesis using lt[of "ws ! i"] i True by auto
  next
    case False
    have len: "length ws = c + length (dropWhile ?P ws)"
      unfolding c_def by (metis length_append takeWhile_dropWhile_id)
    have "ws ! i = (takeWhile ?P ws @ dropWhile ?P ws) ! i" by simp
    also have "\<dots> = dropWhile ?P ws ! (i - c)"
      using False by (simp add: nth_append c_def del: takeWhile_dropWhile_id)
    finally have "ws ! i = dropWhile ?P ws ! (i - c)" .
    moreover have "i - c < length (dropWhile ?P ws)"
      using i False len by simp
    ultimately have "ws ! i \<in> set (dropWhile ?P ws)" by (metis nth_mem)
    then have "k pivot < k (ws ! i)" using sorted_key_split[OF s, of "k pivot"] by blast
    then show ?thesis using lt[of "ws ! i"] i False by auto
  qed
  then have f: "findInsert lt pivot ws 0 (length ws) = c"
    using cl by (intro findInsert_sorted) auto
  show "take (findInsert lt pivot ws 0 (length ws)) ws = takeWhile ?P ws"
    unfolding f c_def by (metis append_eq_conv_conj takeWhile_dropWhile_id)
  show "drop (findInsert lt pivot ws 0 (length ws)) ws = dropWhile ?P ws"
    unfolding f c_def by (metis append_eq_conv_conj takeWhile_dropWhile_id)
qed

lemma sort_key_snoc:
  fixes k :: "'a \<Rightarrow> real"
  shows "sort_key k (ys @ [x]) =
    takeWhile (\<lambda>y. k y \<le> k x) (sort_key k ys) @ x # dropWhile (\<lambda>y. k y \<le> k x) (sort_key k ys)"
proof (rule properties_for_sort_key)
  let ?P = "\<lambda>y. k y \<le> k x"
  let ?S = "sort_key k ys"
  let ?R = "takeWhile ?P ?S @ x # dropWhile ?P ?S"
  have td: "takeWhile ?P ?S @ dropWhile ?P ?S = ?S" by simp
  have sS: "sorted (map k ?S)" by simp
  have gt: "\<forall>y \<in> set (dropWhile ?P ?S). k x < k y" by (rule sorted_key_split[OF sS])
  have le: "\<forall>y \<in> set (takeWhile ?P ?S). k y \<le> k x" by (auto dest: set_takeWhileD)
  show "mset ?R = mset (ys @ [x])"
    by (metis td mset_append mset.simps(2) mset_sort union_mset_add_mset_right
        add_mset_add_single mset.simps(1) add.right_neutral)
  have "sorted (map k (takeWhile ?P ?S))" "sorted (map k (dropWhile ?P ?S))"
    using sS by (metis td map_append sorted_append)+
  then show "sorted (map k ?R)"
    using gt le by (fastforce simp: sorted_append)
  fix a assume "a \<in> set ?R"
  show "filter (\<lambda>y. k a = k y) ?R = filter (\<lambda>y. k a = k y) (ys @ [x])"
  proof (cases "k a = k x")
    case True
    have "filter (\<lambda>y. k a = k y) (dropWhile ?P ?S) = []"
      using gt True by (auto simp: filter_empty_conv)
    then have "filter (\<lambda>y. k a = k y) ?R = filter (\<lambda>y. k a = k y) (takeWhile ?P ?S @ dropWhile ?P ?S) @ [x]"
      using True by (simp del: takeWhile_dropWhile_id)
    also have "\<dots> = filter (\<lambda>y. k a = k y) ys @ [x]"
      unfolding td using sort_key_stable[where f = k and xs = ys and k = "k a"] by (simp add: eq_commute)
    finally show ?thesis using True by simp
  next
    case False
    then have "filter (\<lambda>y. k a = k y) ?R = filter (\<lambda>y. k a = k y) (takeWhile ?P ?S @ dropWhile ?P ?S)"
      by (simp del: takeWhile_dropWhile_id)
    also have "\<dots> = filter (\<lambda>y. k a = k y) ys"
      unfolding td using sort_key_stable[where f = k and xs = ys and k = "k a"] by (simp add: eq_commute)
    finally show ?thesis using False by simp
  qed
qed

lemma binaryInsertionSort_key:
  fixes k :: "'a \<Rightarrow> real"
  assumes lt: "\<And>x y. x \<in> set (done @ rest) \<Longrightarrow> y \<in> set (done @ rest) \<Longrightarrow> lt x y \<longleftrightarrow> k x < k y"
  shows "binaryInsertionSort lt (sort_key k done) rest = sort_key k (done @ rest)"
  using lt
proof (induction rest arbitrary: "done")
  case Nil
  show ?case by simp
next
  case (Cons pivot rest)
  let ?S = "sort_key k done"
  have "take (findInsert lt pivot ?S 0 (length ?S)) ?S @ pivot # drop (findInsert lt pivot ?S 0 (length ?S)) ?S
      = sort_key k (done @ [pivot])"
    unfolding sort_key_snoc
    using findInsert_key[of k ?S lt pivot] Cons.prems by simp
  moreover have "binaryInsertionSort lt (sort_key k (done @ [pivot])) rest = sort_key k ((done @ [pivot]) @ rest)"
    by (rule Cons.IH) (use Cons.prems in auto)
  ultimately show ?case by (simp add: Let_def)
qed


lemma countRun_ascending:
  fixes k :: "'a \<Rightarrow> real"
  assumes "\<And>x y. x \<in> set (p # ws) \<Longrightarrow> y \<in> set (p # ws) \<Longrightarrow> lt x y \<longleftrightarrow> k x < k y"
  shows "sorted (map k (p # take (countRun lt False p ws) ws))"
  using assms
proof (induction ws arbitrary: p)
  case Nil
  show ?case by simp
next
  case (Cons cur rest)
  show ?case
  proof (cases "lt cur p")
    case True
    then show ?thesis by simp
  next
    case False
    then have "k p \<le> k cur" using Cons.prems[of cur p] by simp
    moreover have "sorted (map k (cur # take (countRun lt False cur rest) rest))"
      by (rule Cons.IH) (use Cons.prems in auto)
    ultimately show ?thesis using False by fastforce
  qed
qed

lemma countRun_descending:
  fixes k :: "'a \<Rightarrow> real"
  assumes "\<And>x y. x \<in> set (p # ws) \<Longrightarrow> y \<in> set (p # ws) \<Longrightarrow> lt x y \<longleftrightarrow> k x < k y"
  shows "sorted_wrt (\<lambda>a b. k b < k a) (p # take (countRun lt True p ws) ws)"
  using assms
proof (induction ws arbitrary: p)
  case Nil
  show ?case by simp
next
  case (Cons cur rest)
  show ?case
  proof (cases "lt cur p")
    case False
    then show ?thesis by simp
  next
    case True
    then have "k cur < k p" using Cons.prems[of cur p] by simp
    moreover have "sorted_wrt (\<lambda>a b. k b < k a) (cur # take (countRun lt True cur rest) rest)"
      by (rule Cons.IH) (use Cons.prems in auto)
    ultimately show ?thesis using True by fastforce
  qed
qed

lemma filter_distinct_key:
  "distinct (map k xs) \<Longrightarrow> a \<in> set xs \<Longrightarrow> filter (\<lambda>y. k a = k y) xs = [a]"
proof (induction xs)
  case Nil
  then show ?case by simp
next
  case (Cons x xs)
  show ?case
  proof (cases "a = x")
    case True
    have "filter (\<lambda>y. k x = k y) xs = []"
      using Cons.prems(1) by (auto simp: filter_empty_conv)
    with True show ?thesis by simp
  next
    case False
    then have "a \<in> set xs" using Cons.prems(2) by simp
    moreover have "k a \<noteq> k x" using Cons.prems(1) \<open>a \<in> set xs\<close>
      by (metis distinct.simps(2) image_eqI list.simps(9) set_map)
    ultimately show ?thesis using Cons by simp
  qed
qed

lemma rev_descending_run:
  fixes k :: "'a \<Rightarrow> real"
  assumes "sorted_wrt (\<lambda>a b. k b < k a) run"
  shows "sort_key k run = rev run"
proof (rule properties_for_sort_key)
  show "mset (rev run) = mset run" by simp
  have strict: "sorted_wrt (\<lambda>a b. k a < k b) (rev run)"
    using assms by (simp add: sorted_wrt_rev)
  then have "sorted_wrt (\<lambda>a b. k a \<le> k b) (rev run)"
    by (rule sorted_wrt_mono_rel[rotated]) simp
  then show "sorted (map k (rev run))" by (simp add: sorted_map)
  have "sorted_wrt (\<lambda>a b. a < b) (map k (rev run))"
    using strict by (simp add: sorted_wrt_map)
  then have d: "distinct (map k (rev run))"
    by (simp add: strict_sorted_iff)
  then have d': "distinct (map k run)" by (metis distinct_rev rev_map)
  fix a assume a: "a \<in> set (rev run)"
  then have "a \<in> set run" by simp
  then show "filter (\<lambda>y. k a = k y) (rev run) = filter (\<lambda>y. k a = k y) run"
    using filter_distinct_key[OF d a] filter_distinct_key[OF d', of a] by simp
qed

lemma arraySort_key:
  fixes k :: "'a \<Rightarrow> real"
  assumes lt: "\<And>x y. x \<in> set ws \<Longrightarrow> y \<in> set ws \<Longrightarrow> lt x y \<longleftrightarrow> k x < k y"
  shows "arraySort lt ws = sort_key k ws"
proof (cases ws)
  case Nil
  then show ?thesis by (simp add: arraySort_def)
next
  case (Cons x xs)
  show ?thesis
  proof (cases xs)
    case Nil
    with Cons show ?thesis by (simp add: arraySort_def)
  next
    case (Cons y ys)
    have ws: "ws = x # y # ys" using \<open>ws = x # xs\<close> Cons by simp
    define desc where "desc = lt y x"
    define r where "r = 2 + countRun lt desc y ys"
    define run where "run = take r ws"
    have run: "run = x # y # take (countRun lt desc y ys) ys"
      by (simp add: run_def r_def ws)
    have lt': "\<And>a b. a \<in> set (y # ys) \<Longrightarrow> b \<in> set (y # ys) \<Longrightarrow> lt a b \<longleftrightarrow> k a < k b"
      using lt ws by simp
    have head: "(if desc then rev run else run) = sort_key k run"
    proof (cases desc)
      case True
      then have "k y < k x" using lt[of y x] ws by (simp add: desc_def)
      moreover have "sorted_wrt (\<lambda>a b. k b < k a) (y # take (countRun lt True y ys) ys)"
        by (rule countRun_descending[OF lt'])
      ultimately have "sorted_wrt (\<lambda>a b. k b < k a) run"
        unfolding run using True by fastforce
      then show ?thesis using True by (simp add: rev_descending_run)
    next
      case False
      then have "k x \<le> k y" using lt[of y x] ws by (simp add: desc_def)
      moreover have "sorted (map k (y # take (countRun lt False y ys) ys))"
        by (rule countRun_ascending[OF lt'])
      ultimately have "sorted (map k run)"
        unfolding run using False by fastforce
      then show ?thesis using False by (simp add: sort_key_id_if_sorted)
    qed
    have "arraySort lt ws = binaryInsertionSort lt (if desc then rev run else run) (drop r ws)"
      unfolding arraySort_def ws desc_def r_def run_def by (simp add: Let_def)
    also have "\<dots> = binaryInsertionSort lt (sort_key k run) (drop r ws)"
      by (simp only: head)
    also have "\<dots> = sort_key k (run @ drop r ws)"
    proof (rule binaryInsertionSort_key)
      fix a b
      assume "a \<in> set (run @ drop r ws)" "b \<in> set (run @ drop r ws)"
      then have "a \<in> set ws" "b \<in> set ws" by (simp_all add: run_def)
      then show "lt a b \<longleftrightarrow> k a < k b" by (rule lt)
    qed
    also have "run @ drop r ws = ws" by (simp add: run_def)
    finally show ?thesis .
  qed
qed

section \<open>Properties of the ranker\<close>

text \<open>
  A key for the proofs: it is smaller for the higher score, on the scores that are not
  NaN.
\<close>

lemma squash_mono: "x < y \<Longrightarrow> x / (1 + \<bar>x\<bar>) < y / (1 + \<bar>y::real\<bar>)"
proof -
  assume xy: "x < y"
  have p: "0 < 1 + \<bar>x\<bar>" "0 < 1 + \<bar>y\<bar>" by simp_all
  have "x * (1 + \<bar>y\<bar>) < y * (1 + \<bar>x\<bar>)"
  proof (cases "0 \<le> x")
    case True
    then show ?thesis using xy by (simp add: algebra_simps)
  next
    case x: False
    show ?thesis
    proof (cases "0 \<le> y")
      case True
      have "x * (1 + \<bar>y\<bar>) < 0" using x p(2) by (simp add: mult_neg_pos)
      moreover have "0 \<le> y * (1 + \<bar>x\<bar>)" using True by simp
      ultimately show ?thesis by linarith
    next
      case False
      then show ?thesis using x xy by (simp add: algebra_simps)
    qed
  qed
  then show ?thesis using p by (simp add: field_simps)
qed

lemma squash_bounds: "- 1 < x / (1 + \<bar>x::real\<bar>)" "x / (1 + \<bar>x\<bar>) < 1"
proof -
  have p: "0 < 1 + \<bar>x\<bar>" by simp
  show "- 1 < x / (1 + \<bar>x\<bar>)" using p by (simp add: field_simps)
  show "x / (1 + \<bar>x\<bar>) < 1" using p by (simp add: field_simps)
qed

lemma rankKey_Fin:
  "rankKey (Fin x) < rankKey (Fin y) \<longleftrightarrow> y < x"
  "rankKey (Fin x) \<le> rankKey (Fin y) \<longleftrightarrow> y \<le> x"
  "rankKey (Fin x) < 2" "- 2 < rankKey (Fin x)"
  "rankKey (Fin x) \<le> 2" "- 2 \<le> rankKey (Fin x)"
  "\<not> 2 < rankKey (Fin x)" "\<not> rankKey (Fin x) < - 2"
  "\<not> 2 \<le> rankKey (Fin x)" "\<not> rankKey (Fin x) \<le> - 2"
proof -
  have lt: "rankKey (Fin x) < rankKey (Fin y)" if "y < x" for x y
    using squash_mono[OF that] by simp
  show "rankKey (Fin x) < rankKey (Fin y) \<longleftrightarrow> y < x"
    using lt[of y x] lt[of x y] by (cases "y < x"; cases "x < y"; cases "x = y") auto
  show "rankKey (Fin x) \<le> rankKey (Fin y) \<longleftrightarrow> y \<le> x"
    using lt[of y x] lt[of x y] by (cases "y < x"; cases "x < y"; cases "x = y") auto
  show "rankKey (Fin x) < 2" "- 2 < rankKey (Fin x)"
    "rankKey (Fin x) \<le> 2" "- 2 \<le> rankKey (Fin x)"
    "\<not> 2 < rankKey (Fin x)" "\<not> rankKey (Fin x) < - 2"
    "\<not> 2 \<le> rankKey (Fin x)" "\<not> rankKey (Fin x) \<le> - 2"
    unfolding rankKey.simps using squash_bounds[of x] by linarith+
qed

lemma rankKey_jgt:
  "a \<noteq> NaN \<Longrightarrow> b \<noteq> NaN \<Longrightarrow> jgt a b \<longleftrightarrow> rankKey a < rankKey b"
  by (cases a; cases b) (simp_all add: rankKey_Fin del: rankKey.simps(2))

lemma rankKey_jle:
  "a \<noteq> NaN \<Longrightarrow> b \<noteq> NaN \<Longrightarrow> jle a b \<longleftrightarrow> rankKey b \<le> rankKey a"
  by (cases a; cases b) (simp_all add: rankKey_Fin del: rankKey.simps(2))


lemma sortsBefore_jgt:
  "score x \<noteq> NaN \<Longrightarrow> score y \<noteq> NaN \<Longrightarrow> sortsBefore x y \<longleftrightarrow> jgt (score x) (score y)"
  by (cases "score x"; cases "score y")
     (simp_all add: sortsBefore_def compareScores_def jsub_def Let_def)


lemma sortByScore_sort_key:
  assumes "\<forall>s \<in> set strategies. score s \<noteq> NaN"
  shows "sortByScore strategies = sort_key (\<lambda>s. rankKey (score s)) strategies"
  unfolding sortByScore_def
  by (rule arraySort_key) (use assms in \<open>simp add: sortsBefore_jgt rankKey_jgt\<close>)

lemma mset_sortByScore: "mset (sortByScore strategies) = mset strategies"
  by (simp add: sortByScore_def mset_arraySort)


lemma set_sortByScore: "set (sortByScore strategies) = set strategies"
  using mset_sortByScore[of strategies] by (metis set_mset_mset)

lemma unrank_addRank: "unrank (addRank (i, s)) = s"
  by (simp add: unrank_def addRank_def)

lemma unrank_rankStrategies:
  "map unrank (rankStrategies strategies) = take 3 (sortByScore strategies)"
proof -
  have c: "map (unrank \<circ> addRank) (enumerate 0 ys) = map snd (enumerate 0 ys)"
    for ys :: "'a scored list"
    by (rule map_cong[OF refl]) (auto simp: unrank_addRank)
  have h: "map unrank (map addRank (enumerate 0 ys)) = ys" for ys :: "'a scored list"
    by (simp add: c)
  show ?thesis
    by (simp only: rankStrategies_def take_map[symmetric] h)
qed

lemma rscore_rankStrategies:
  "map rscore (rankStrategies strategies) = map score (take 3 (sortByScore strategies))"
proof -
  have "map rscore (rankStrategies strategies) = map score (map unrank (rankStrategies strategies))"
    by (simp add: unrank_def)
  then show ?thesis by (simp only: unrank_rankStrategies)
qed






lemma sortByScore_descending:
  assumes "\<forall>s \<in> set strategies. score s \<noteq> NaN"
  shows "sorted_wrt (\<lambda>a b. jle (score b) (score a)) (sortByScore strategies)"
proof -
  have "sorted (map (\<lambda>s. rankKey (score s)) (sortByScore strategies))"
    unfolding sortByScore_sort_key[OF assms] by (rule sorted_sort_key)
  then have "sorted_wrt (\<lambda>a b. rankKey (score a) \<le> rankKey (score b)) (sortByScore strategies)"
    by (simp add: sorted_map)
  then show ?thesis
    by (rule sorted_wrt_mono_rel[rotated])
       (use assms in \<open>simp add: set_sortByScore rankKey_jle\<close>)
qed








section \<open>Properties of the strategy catalog\<close>

lemma type_generators:
  "type (generateIronCondor p) = ''iron_condor''"
  "type (generateVerticalSpread p) = ''vertical_spread''"
  "type (generateButterfly p) = ''butterfly''"
  "type (generateCashSecuredPut p) = ''cash_secured_put''"
  "type (generateCalendarSpread p) = ''calendar_spread''"
  "type (generateDiagonalSpread p) = ''diagonal_spread''"
  by (simp_all add: generateIronCondor_def generateVerticalSpread_def generateButterfly_def
      generateCashSecuredPut_def generateCalendarSpread_def generateDiagonalSpread_def Let_def)

lemma types_allCandidates:
  "map type (allCandidates p) =
     (if ivRank p \<ge> 45 then [''iron_condor''] else [])
     @ [''vertical_spread'']
     @ (if ivRank p \<le> 60 then [''butterfly''] else [])
     @ (if trend p \<noteq> ''bearish'' then [''cash_secured_put''] else [])
     @ (if dte p \<ge> 7 then [''calendar_spread''] else [])
     @ (if dte p \<ge> 7 \<and> trend p \<noteq> ''neutral'' then [''diagonal_spread''] else [])"
  by (simp add: allCandidates_def type_generators)

text \<open>
  C5. Before scoring and truncation the catalog of \<open>generateAllStrategies\<close> holds an
  iron condor exactly when the IV rank is at least 45, a vertical spread always, a
  butterfly exactly when the IV rank is at most 60, a cash-secured put exactly when the
  trend is not bearish, a calendar spread exactly when \<open>dte\<close> is at least 7, and a
  diagonal spread exactly when \<open>dte\<close> is at least 7 and the trend is not neutral. No
  type occurs twice and there is no other type; the function is total, so a closed gate
  only leaves its candidate out.
\<close>

theorem allCandidates_gates:
  "(''iron_condor'' \<in> set (map type (allCandidates p)) \<longleftrightarrow> ivRank p \<ge> 45)
   \<and> ''vertical_spread'' \<in> set (map type (allCandidates p))
   \<and> (''butterfly'' \<in> set (map type (allCandidates p)) \<longleftrightarrow> ivRank p \<le> 60)
   \<and> (''cash_secured_put'' \<in> set (map type (allCandidates p)) \<longleftrightarrow> trend p \<noteq> ''bearish'')
   \<and> (''calendar_spread'' \<in> set (map type (allCandidates p)) \<longleftrightarrow> dte p \<ge> 7)
   \<and> (''diagonal_spread'' \<in> set (map type (allCandidates p))
        \<longleftrightarrow> dte p \<ge> 7 \<and> trend p \<noteq> ''neutral'')
   \<and> distinct (map type (allCandidates p))
   \<and> set (map type (allCandidates p)) \<subseteq>
        {''iron_condor'', ''vertical_spread'', ''butterfly'', ''cash_secured_put'',
         ''calendar_spread'', ''diagonal_spread''}"
  unfolding types_allCandidates by simp

theorem allCandidates_gates_witness:
  "map type (allCandidates exampleParams) =
     [''iron_condor'', ''vertical_spread'', ''cash_secured_put'', ''calendar_spread'',
      ''diagonal_spread'']
   \<and> ivRank exampleParams \<ge> 45 \<and> \<not> ivRank exampleParams \<le> 60
   \<and> trend exampleParams \<noteq> ''bearish'' \<and> dte exampleParams \<ge> 7
   \<and> trend exampleParams \<noteq> ''neutral''
   \<and> ''iron_condor'' \<in> set (map type (allCandidates exampleParams))
   \<and> ''butterfly'' \<notin> set (map type (allCandidates exampleParams))
   \<and> ''diagonal_spread'' \<in> set (map type (allCandidates exampleParams))"
proof -
  have gates: "ivRank exampleParams \<ge> 45" "\<not> ivRank exampleParams \<le> 60"
    "trend exampleParams \<noteq> ''bearish''" "dte exampleParams \<ge> 7"
    "trend exampleParams \<noteq> ''neutral''"
    by (simp_all add: exampleParams_def)
  have run: "map type (allCandidates exampleParams) =
     [''iron_condor'', ''vertical_spread'', ''cash_secured_put'', ''calendar_spread'',
      ''diagonal_spread'']"
    by (simp add: types_allCandidates gates)
  have "''iron_condor'' \<in> set (map type (allCandidates exampleParams))
     \<and> ''butterfly'' \<notin> set (map type (allCandidates exampleParams))
     \<and> ''diagonal_spread'' \<in> set (map type (allCandidates exampleParams))"
    using allCandidates_gates[of exampleParams] gates by blast
  with gates run show ?thesis
    by (intro conjI) blast+
qed

section \<open>Contract sizing in estimated mode\<close>

lemma ceil_sizing:
  assumes "0 < c"
  shows "jceil (jdiv (Fin 150) (Fin c)) = Fin (of_int (spec_contracts c))"
    and "1 \<le> spec_contracts c"
    and "150 \<le> js_round (c * of_int (spec_contracts c))"
    and "150 \<le> c * of_int (spec_contracts c)"
proof -
  show 1: "jceil (jdiv (Fin 150) (Fin c)) = Fin (of_int (spec_contracts c))"
    using assms by (simp add: spec_contracts_def)
  have "0 < 150 / c" using assms by simp
  then show "1 \<le> spec_contracts c"
    unfolding spec_contracts_def js_ceil_def by linarith
  have "150 / c \<le> of_int (spec_contracts c)"
    unfolding spec_contracts_def js_ceil_def by linarith
  then have "c * (150 / c) \<le> c * of_int (spec_contracts c)"
    using assms by (simp only: mult_le_cancel_left_pos)
  then show 3: "150 \<le> c * of_int (spec_contracts c)"
    using assms by simp
  show "150 \<le> js_round (c * of_int (spec_contracts c))"
    using 3 unfolding js_round_def by linarith
qed

lemma credit_factor_pos:
  "0 < atmIV p \<Longrightarrow> 0 < currentPrice p \<Longrightarrow> 0 < k \<Longrightarrow> 0 < atmIV p * currentPrice p * k"
  by simp











section \<open>Properties of real-price mode\<close>

lemma findOptionByStrike_None: "findOptionByStrike options t = None \<longleftrightarrow> options = []"
  by (cases options) (simp_all add: findOptionByStrike_def)

lemma findOptionByStrike_mem:
  assumes "findOptionByStrike options t = Some found"
  shows "found \<in> set options"
proof (cases options)
  case Nil
  with assms show ?thesis by (simp add: findOptionByStrike_def)
next
  case (Cons first others)
  from foldl_closer_split[of first others t] obtain pre post
    where "first # others = pre @ foldl (closer t) first others # post" by blast
  then have "foldl (closer t) first others \<in> set (first # others)"
    by (metis in_set_conv_decomp)
  with assms Cons show ?thesis by (simp add: findOptionByStrike_def)
qed

lemma no_options_blocks:
  assumes "\<not> hasOptions p"
  shows "realIronCondor p = []" "realVerticalSpread p = []" "realCashSecuredPut p = []"
  using assms by (simp_all add: realIronCondor_def realVerticalSpread_def realCashSecuredPut_def)

lemma fallback_fields:
  "type (generateFallbackStrategy p) = ''iron_condor''"
  "usingRealPrices (generateFallbackStrategy p) = Some False"
  "strikes (generateFallbackStrategy p) = strikes (generateIronCondor p)"
  "contracts (generateFallbackStrategy p) = contracts (generateIronCondor p)"
  "netCredit (generateFallbackStrategy p) = netCredit (generateIronCondor p)"
  "maxRisk (generateFallbackStrategy p) = maxRisk (generateIronCondor p)"
  "roc (generateFallbackStrategy p) = roc (generateIronCondor p)"
  by (simp_all add: generateFallbackStrategy_def generateIronCondor_def Let_def)

text \<open>With both sides of the chain non-empty every leg resolves, and each block whose
  gate is open pushes its candidate.\<close>

lemma resolved:
  assumes "options \<noteq> []"
  obtains found where "findOptionByStrike options t = Some found" "found \<in> set options"
  using assms findOptionByStrike_None[of options t] findOptionByStrike_mem[of options t]
  by (cases "findOptionByStrike options t") auto

lemma realIronCondor_pushed:
  assumes "hasOptions p"
  shows "map type (realIronCondor p) = (if ivRank p \<ge> 45 then [''iron_condor''] else [])"
    and "\<forall>s \<in> set (realIronCondor p). usingRealPrices s = Some True
          \<and> snd ` set (strikes s) \<subseteq> strike ` (set (calls p) \<union> set (puts p))"
proof -
  from assms have ne: "calls p \<noteq> []" "puts p \<noteq> []"
    by (auto simp: hasOptions_def)
  obtain a where a: "findOptionByStrike (puts p) (roundTo5 (sigmaLower p)) = Some a"
    "a \<in> set (puts p)" using resolved[OF ne(2)] by blast
  obtain b where b: "findOptionByStrike (puts p) (roundTo5 (sigmaLower p) - 10) = Some b"
    "b \<in> set (puts p)" using resolved[OF ne(2)] by blast
  obtain c where c: "findOptionByStrike (calls p) (roundTo5 (sigmaUpper p)) = Some c"
    "c \<in> set (calls p)" using resolved[OF ne(1)] by blast
  obtain d where d: "findOptionByStrike (calls p) (roundTo5 (sigmaUpper p) + 10) = Some d"
    "d \<in> set (calls p)" using resolved[OF ne(1)] by blast
  show "map type (realIronCondor p) = (if ivRank p \<ge> 45 then [''iron_condor''] else [])"
    using assms by (simp add: realIronCondor_def Let_def a b c d)
  show "\<forall>s \<in> set (realIronCondor p). usingRealPrices s = Some True
          \<and> snd ` set (strikes s) \<subseteq> strike ` (set (calls p) \<union> set (puts p))"
    using assms a(2) b(2) c(2) d(2) by (simp add: realIronCondor_def Let_def a b c d)
qed

lemma realVerticalSpread_pushed:
  assumes "hasOptions p"
  shows "map type (realVerticalSpread p) = [''vertical_spread'']"
    and "\<forall>s \<in> set (realVerticalSpread p). usingRealPrices s = Some True
          \<and> snd ` set (strikes s) \<subseteq> strike ` (set (calls p) \<union> set (puts p))"
proof -
  from assms have ne: "calls p \<noteq> []" "puts p \<noteq> []"
    by (auto simp: hasOptions_def)
  obtain a where a: "findOptionByStrike (puts p) (roundTo5 (sigmaLower p)) = Some a"
    "a \<in> set (puts p)" using resolved[OF ne(2)] by blast
  obtain b where b: "findOptionByStrike (puts p) (roundTo5 (sigmaLower p) - 10) = Some b"
    "b \<in> set (puts p)" using resolved[OF ne(2)] by blast
  obtain c where c: "findOptionByStrike (calls p) (roundTo5 (sigmaUpper p)) = Some c"
    "c \<in> set (calls p)" using resolved[OF ne(1)] by blast
  obtain d where d: "findOptionByStrike (calls p) (roundTo5 (sigmaUpper p) + 10) = Some d"
    "d \<in> set (calls p)" using resolved[OF ne(1)] by blast
  show "map type (realVerticalSpread p) = [''vertical_spread'']"
    using assms by (simp add: realVerticalSpread_def Let_def a b c d)
  show "\<forall>s \<in> set (realVerticalSpread p). usingRealPrices s = Some True
          \<and> snd ` set (strikes s) \<subseteq> strike ` (set (calls p) \<union> set (puts p))"
    using assms a(2) b(2) c(2) d(2) by (simp add: realVerticalSpread_def Let_def a b c d)
qed

lemma realCashSecuredPut_pushed:
  assumes "hasOptions p"
  shows "map type (realCashSecuredPut p)
      = (if trend p \<noteq> ''bearish'' then [''cash_secured_put''] else [])"
    and "\<forall>s \<in> set (realCashSecuredPut p). usingRealPrices s = Some True
          \<and> snd ` set (strikes s) \<subseteq> strike ` (set (calls p) \<union> set (puts p))"
proof -
  from assms have ne: "puts p \<noteq> []"
    by (auto simp: hasOptions_def)
  have "\<forall>t. \<exists>a. findOptionByStrike (puts p) t = Some a \<and> a \<in> set (puts p)"
    using resolved[OF ne] by metis
  then obtain f where f: "\<And>t. findOptionByStrike (puts p) t = Some (f t)"
    and m: "\<And>t. f t \<in> set (puts p)"
    by metis
  show "map type (realCashSecuredPut p)
      = (if trend p \<noteq> ''bearish'' then [''cash_secured_put''] else [])"
    using assms by (simp add: realCashSecuredPut_def Let_def f)
  show "\<forall>s \<in> set (realCashSecuredPut p). usingRealPrices s = Some True
          \<and> snd ` set (strikes s) \<subseteq> strike ` (set (calls p) \<union> set (puts p))"
    using assms m by (simp add: realCashSecuredPut_def Let_def f)
qed

lemma js_round_clamp: "0 \<le> js_round (max 0 (min 100 x)) \<and> js_round (max 0 (min 100 x)) \<le> 100"
  unfolding js_round_def by (simp add: max_def min_def)

lemma clamp_round_simps:
  "jround (jmax (Fin 0) (jmin (Fin 100) (Fin x))) = Fin (of_int (js_round (max 0 (min 100 x))))"
  "jround (jmax (Fin 0) (jmin (Fin 100) NegInf)) = Fin 0"
  "jround (jmax (Fin 0) (jmin (Fin 100) PosInf)) = Fin 100"
  "jround (jmax (Fin 0) (jmin (Fin 100) NaN)) = NaN"
  by (simp_all add: js_round_def)

lemma rocTerm_cases:
  assumes "r \<noteq> NaN"
  shows "(\<exists>x. rocTerm r = Fin x) \<or> rocTerm r = NegInf"
  using assms by (cases r) (simp_all add: rocTerm_def)

lemma calcScore_range:
  assumes "roc s \<noteq> NaN"
  shows "\<exists>n. calcScore s p = Fin (of_int n) \<and> 0 \<le> n \<and> n \<le> 100"
proof -
  from rocTerm_cases[OF assms] show ?thesis
  proof
    assume "\<exists>x. rocTerm (roc s) = Fin x"
    then obtain x where "rocTerm (roc s) = Fin x" ..
    then show ?thesis
      unfolding calcScore_def Let_def
      by (simp only: jadd.simps clamp_round_simps) (use js_round_clamp in blast)
  next
    assume "rocTerm (roc s) = NegInf"
    then have "calcScore s p = Fin (of_int 0)"
      unfolding calcScore_def Let_def
      by (simp only: jadd.simps clamp_round_simps) simp
    then show ?thesis by (intro exI[of _ 0]) simp
  qed
qed

lemma rocOf_not_NaN: "x \<noteq> 0 \<Longrightarrow> rocOf (Fin x) (Fin m) \<noteq> NaN"
  by (simp add: rocOf_def)

lemma roc_generateFallbackStrategy:
  assumes "0 < atmIV p" "0 < currentPrice p"
  shows "roc (generateFallbackStrategy p) \<noteq> NaN"
proof -
  have c: "0 < atmIV p * currentPrice p * 0.025"
    using assms by (intro credit_factor_pos) simp_all
  let ?c = "atmIV p * currentPrice p * 0.025"
  let ?n = "js_round (?c * of_int (spec_contracts ?c))"
  have n: "real_of_int ?n \<noteq> 0"
    using ceil_sizing(3)[OF c] by simp
  have "roc (generateFallbackStrategy p)
      = rocOf (Fin (of_int ?n)) (Fin (10 * 100 * of_int (spec_contracts ?c) - of_int ?n))"
    unfolding generateFallbackStrategy_def Let_def
    by (simp only: strategy.simps ceil_sizing(1)[OF c] jmul.simps jround.simps jsub_def
        jneg.simps jadd.simps) simp
  with rocOf_not_NaN[OF n] show ?thesis by simp
qed

lemma sortByScore_single: "sortByScore [x] = [x]"
  by (simp add: sortByScore_def arraySort_def)

lemma rankStrategies_single:
  "rankStrategies [x] = [\<lparr>rcand = cand x, rscore = score x, rank = 1, medal = Gold\<rparr>]"
  by (simp add: rankStrategies_def sortByScore_single addRank_def medalAt_def)

text \<open>
  C4, as the code has it. A leg cannot be resolved only when its side of the chain is
  empty: on a non-empty side the nearest strike is taken, however far it is. The three
  blocks of \<open>generateStrategiesWithRealPrices\<close> are guarded by \<open>hasOptions\<close>. When the
  chain lacks its calls or its puts, none of them pushes a candidate, and the candidate
  list is the one fallback candidate: an iron condor with the strikes, the contract count,
  the credit, the risk and the return of the estimated-mode iron condor, and with
  \<open>usingRealPrices\<close> false; the function returns that candidate alone, ranked first, with
  an integer score between 0 and 100 when the price and the IV are positive. When both
  sides are non-empty there is no fallback candidate: the candidates are the iron condor
  when the IV rank is at least 45, the vertical spread, and the cash-secured put when the
  trend is not bearish, in this order, each with \<open>usingRealPrices\<close> true and with strikes
  that are strikes of the chain.
\<close>

theorem realPrice_fallback:
  "(findOptionByStrike options targetStrike = None \<longleftrightarrow> options = [])
   \<and> (\<not> hasOptions p \<longrightarrow>
      realIronCondor p = [] \<and> realVerticalSpread p = [] \<and> realCashSecuredPut p = []
    \<and> realPriceCandidates p = [generateFallbackStrategy p]
    \<and> type (generateFallbackStrategy p) = ''iron_condor''
    \<and> usingRealPrices (generateFallbackStrategy p) = Some False
    \<and> strikes (generateFallbackStrategy p) = strikes (generateIronCondor p)
    \<and> contracts (generateFallbackStrategy p) = contracts (generateIronCondor p)
    \<and> netCredit (generateFallbackStrategy p) = netCredit (generateIronCondor p)
    \<and> maxRisk (generateFallbackStrategy p) = maxRisk (generateIronCondor p)
    \<and> roc (generateFallbackStrategy p) = roc (generateIronCondor p)
    \<and> generateStrategiesWithRealPrices p
        = [\<lparr>rcand = generateFallbackStrategy p,
            rscore = calcScore (generateFallbackStrategy p) p, rank = 1, medal = Gold\<rparr>])
   \<and> (\<not> hasOptions p \<and> 0 < atmIV p \<and> 0 < currentPrice p \<longrightarrow>
      (\<exists>n. calcScore (generateFallbackStrategy p) p = Fin (of_int n) \<and> 0 \<le> n \<and> n \<le> 100))
   \<and> (hasOptions p \<longrightarrow>
      realPriceCandidates p = realIronCondor p @ realVerticalSpread p @ realCashSecuredPut p
    \<and> map type (realPriceCandidates p)
        = (if ivRank p \<ge> 45 then [''iron_condor''] else [])
          @ [''vertical_spread'']
          @ (if trend p \<noteq> ''bearish'' then [''cash_secured_put''] else [])
    \<and> (\<forall>s \<in> set (realPriceCandidates p). usingRealPrices s = Some True
          \<and> snd ` set (strikes s) \<subseteq> strike ` (set (calls p) \<union> set (puts p))))"
proof (intro conjI impI)
  show "findOptionByStrike options targetStrike = None \<longleftrightarrow> options = []"
    by (rule findOptionByStrike_None)
next
  assume no: "\<not> hasOptions p"
  show "realIronCondor p = []" "realVerticalSpread p = []" "realCashSecuredPut p = []"
    by (rule no_options_blocks[OF no])+
  show c: "realPriceCandidates p = [generateFallbackStrategy p]"
    by (simp add: realPriceCandidates_def no_options_blocks[OF no])
  show "generateStrategiesWithRealPrices p
        = [\<lparr>rcand = generateFallbackStrategy p,
            rscore = calcScore (generateFallbackStrategy p) p, rank = 1, medal = Gold\<rparr>]"
    by (simp add: generateStrategiesWithRealPrices_def c rankStrategies_single)
next
  show "type (generateFallbackStrategy p) = ''iron_condor''"
    "usingRealPrices (generateFallbackStrategy p) = Some False"
    "strikes (generateFallbackStrategy p) = strikes (generateIronCondor p)"
    "contracts (generateFallbackStrategy p) = contracts (generateIronCondor p)"
    "netCredit (generateFallbackStrategy p) = netCredit (generateIronCondor p)"
    "maxRisk (generateFallbackStrategy p) = maxRisk (generateIronCondor p)"
    "roc (generateFallbackStrategy p) = roc (generateIronCondor p)"
    by (rule fallback_fields)+
next
  assume "\<not> hasOptions p \<and> 0 < atmIV p \<and> 0 < currentPrice p"
  then have "roc (generateFallbackStrategy p) \<noteq> NaN"
    by (intro roc_generateFallbackStrategy) simp_all
  then show "\<exists>n. calcScore (generateFallbackStrategy p) p = Fin (of_int n) \<and> 0 \<le> n \<and> n \<le> 100"
    by (rule calcScore_range)
next
  assume yes: "hasOptions p"
  have v: "realVerticalSpread p \<noteq> []"
    using realVerticalSpread_pushed(1)[OF yes] by auto
  show eq: "realPriceCandidates p = realIronCondor p @ realVerticalSpread p @ realCashSecuredPut p"
    by (simp add: realPriceCandidates_def v)
  show "map type (realPriceCandidates p)
        = (if ivRank p \<ge> 45 then [''iron_condor''] else [])
          @ [''vertical_spread'']
          @ (if trend p \<noteq> ''bearish'' then [''cash_secured_put''] else [])"
    unfolding eq map_append
    by (simp only: realIronCondor_pushed(1)[OF yes] realVerticalSpread_pushed(1)[OF yes]
        realCashSecuredPut_pushed(1)[OF yes])
  show "\<forall>s \<in> set (realPriceCandidates p). usingRealPrices s = Some True
          \<and> snd ` set (strikes s) \<subseteq> strike ` (set (calls p) \<union> set (puts p))"
    unfolding eq
    using realIronCondor_pushed(2)[OF yes] realVerticalSpread_pushed(2)[OF yes]
      realCashSecuredPut_pushed(2)[OF yes]
    by (simp only: set_append Un_iff) blast
qed

theorem realPrice_fallback_witness:
  "\<not> hasOptions exampleParams \<and> 0 < atmIV exampleParams \<and> 0 < currentPrice exampleParams
   \<and> realPriceCandidates exampleParams = [generateFallbackStrategy exampleParams]
   \<and> (\<exists>n. calcScore (generateFallbackStrategy exampleParams) exampleParams = Fin (of_int n)
         \<and> 0 \<le> n \<and> n \<le> 100)
   \<and> map rank (generateStrategiesWithRealPrices exampleParams) = [1]
   \<and> hasOptions exampleChainParams
   \<and> map type (realPriceCandidates exampleChainParams)
       = [''iron_condor'', ''vertical_spread'', ''cash_secured_put'']
   \<and> set (map usingRealPrices (realPriceCandidates exampleChainParams)) \<subseteq> {Some True}
   \<and> map contracts (realPriceCandidates exampleChainParams) = [Fin 1, Fin 2, Fin 1]
   \<and> map netCredit (realPriceCandidates exampleChainParams)
       = [Some (Fin 250), Some (Fin 250), Some (Fin 200)]
   \<and> map maxRisk (realPriceCandidates exampleChainParams) = [Fin 750, Fin 1750, Fin 23800]
   \<and> map roc (realPriceCandidates exampleChainParams) = [Fin 33, Fin 14, Fin 1]
   \<and> map rscore (generateStrategiesWithRealPrices exampleChainParams)
       = [Fin 78, Fin 68, Fin 62]"
proof -
  have no: "\<not> hasOptions exampleParams" "0 < atmIV exampleParams"
    "0 < currentPrice exampleParams"
    by (simp_all add: hasOptions_def exampleParams_def)
  have yes: "hasOptions exampleChainParams"
    by (simp add: hasOptions_def exampleChainParams_def exampleParams_def)
  have gates: "ivRank exampleChainParams \<ge> 45" "trend exampleChainParams \<noteq> ''bearish''"
    by (simp_all add: exampleChainParams_def exampleParams_def)
  have c: "realPriceCandidates exampleChainParams =
    [\<lparr>type = ''iron_condor'', direction = None,
      strikes = [(''putBuy'', 230), (''putSell'', 240), (''callSell'', 260), (''callBuy'', 270)],
      contracts = Fin 1, netCredit = Some (Fin 250), netDebit = None, maxProfit = None,
      maxRisk = Fin 750, winRate = 72, roc = Fin 33, strategyType = None,
      usingRealPrices = Some True\<rparr>,
     \<lparr>type = ''vertical_spread'', direction = None,
      strikes = [(''sell'', 240), (''buy'', 230)],
      contracts = Fin 2, netCredit = Some (Fin 250), netDebit = None, maxProfit = None,
      maxRisk = Fin 1750, winRate = 80, roc = Fin 14, strategyType = None,
      usingRealPrices = Some True\<rparr>,
     \<lparr>type = ''cash_secured_put'', direction = None,
      strikes = [(''sell'', 240)],
      contracts = Fin 1, netCredit = Some (Fin 200), netDebit = None, maxProfit = None,
      maxRisk = Fin 23800, winRate = 76, roc = Fin 1, strategyType = None,
      usingRealPrices = Some True\<rparr>]"
    by (simp add: realPriceCandidates_def realIronCondor_def realVerticalSpread_def
        realCashSecuredPut_def hasOptions_def exampleChainParams_def exampleParams_def
        roundTo5_def findOptionByStrike_def closer_def js_round_def js_ceil_def rocOf_def
        Let_def jsub_def)
  have sc: "map rscore (generateStrategiesWithRealPrices exampleChainParams)
       = [Fin 78, Fin 68, Fin 62]"
    unfolding generateStrategiesWithRealPrices_def rscore_rankStrategies c
    by (simp add: calcScore_def rocTerm_def Let_def js_round_def exampleChainParams_def
        exampleParams_def sortByScore_def arraySort_def sortsBefore_def compareScores_def
        jsub_def)
  from realPrice_fallback[of "[]" 0 exampleParams] no
  have a: "realPriceCandidates exampleParams = [generateFallbackStrategy exampleParams]
     \<and> (\<exists>n. calcScore (generateFallbackStrategy exampleParams) exampleParams = Fin (of_int n)
          \<and> 0 \<le> n \<and> n \<le> 100)
     \<and> map rank (generateStrategiesWithRealPrices exampleParams) = [1]"
    by simp
  from realPrice_fallback[of "[]" 0 exampleChainParams] yes
  have "map type (realPriceCandidates exampleChainParams)
        = (if ivRank exampleChainParams \<ge> 45 then [''iron_condor''] else [])
          @ [''vertical_spread'']
          @ (if trend exampleChainParams \<noteq> ''bearish'' then [''cash_secured_put''] else [])"
    and real: "\<forall>s \<in> set (realPriceCandidates exampleChainParams).
        usingRealPrices s = Some True
          \<and> snd ` set (strikes s)
              \<subseteq> strike ` (set (calls exampleChainParams) \<union> set (puts exampleChainParams))"
    by blast+
  then have "map type (realPriceCandidates exampleChainParams)
       = [''iron_condor'', ''vertical_spread'', ''cash_secured_put'']"
    using gates by simp
  moreover have "set (map usingRealPrices (realPriceCandidates exampleChainParams))
       \<subseteq> {Some True}"
    using real by auto
  ultimately have b: "map type (realPriceCandidates exampleChainParams)
       = [''iron_condor'', ''vertical_spread'', ''cash_secured_put'']
     \<and> set (map usingRealPrices (realPriceCandidates exampleChainParams)) \<subseteq> {Some True}"
    by blast
  from a b no yes sc show ?thesis
    by (simp add: c)
qed

text \<open>
  Scenario A with a chain that has calls and no puts. The leg of the cash-secured put
  cannot be resolved and the trend is not bearish, yet no cash-secured put is produced,
  neither priced from the chain nor estimated: the only candidate is the fallback iron
  condor. And on the chain whose three strikes all lie far below the band every leg
  resolves, to the strike 110, and no candidate is estimated.
\<close>

theorem realPrice_fallback_counterexample:
  "trend exampleParams \<noteq> ''bearish''
   \<and> findOptionByStrike (puts exampleParams) (roundTo5 (currentPrice exampleParams * 0.95))
       = None
   \<and> realCashSecuredPut exampleParams = []
   \<and> map type (realPriceCandidates exampleParams) = [''iron_condor'']
   \<and> ''cash_secured_put'' \<notin> set (map type (realPriceCandidates exampleParams))
   \<and> findOptionByStrike exampleSide 240
       = Some \<lparr>strike = 110, bid = 3, ask = 4, mid = 7 / 2\<rparr>"
proof -
  have no: "\<not> hasOptions exampleParams"
    by (simp add: hasOptions_def exampleParams_def)
  have "puts exampleParams = []" "trend exampleParams \<noteq> ''bearish''"
    by (simp_all add: exampleParams_def)
  moreover have "findOptionByStrike exampleSide 240
       = Some \<lparr>strike = 110, bid = 3, ask = 4, mid = 7 / 2\<rparr>"
    by (simp add: findOptionByStrike_def exampleSide_def closer_def)
  ultimately show ?thesis
    by (simp add: findOptionByStrike_None realPriceCandidates_def no_options_blocks[OF no]
        fallback_fields)
qed

section \<open>Properties of the scoring system\<close>

lemma calculateStrategyScore_rocTerm:
  assumes "rocTerm (roc s) = Fin x"
  shows "calculateStrategyScore s context = Fin (max 0 (min 100
       ((winRate s / 100) * 25
        + x
        + (ctxTaScore context / 100) * 15
        + calculateIVRScore s (ctxIvRank context)
        + calculateGEXScore s (ctxGammaEnvironment context)
        + 10 + 5
        - (if hasEarningsNear context then 10 else 0))))"
  unfolding calculateStrategyScore_def Let_def assms
  by (simp add: jsub_def)

lemma calculateStrategyScore_explicit:
  assumes "rocTerm (roc s) = Fin (min ((r / 50) * 20) 20)"
  shows "jround (calculateStrategyScore s context)
    = Fin (of_int (js_round (max 0 (min 100
       ((winRate s / 100) * 25
        + min ((r / 50) * 20) 20
        + (ctxTaScore context / 100) * 15
        + (if type s = ''iron_condor'' \<or> type s = ''credit_spread''
              \<or> type s = ''cash_secured_put''
           then (if ctxIvRank context \<ge> 75 then 15 else if ctxIvRank context \<ge> 50 then 12
                 else if ctxIvRank context \<ge> 25 then 8 else 4)
           else (if ctxIvRank context < 25 then 15 else if ctxIvRank context < 50 then 10
                 else 5))
        + (case ctxGammaEnvironment context of
             None \<Rightarrow> 5
           | Some env \<Rightarrow>
               if env = [] then 5
               else if type s = ''iron_condor'' \<or> type s = ''credit_spread''
                       \<or> type s = ''cash_secured_put''
               then (if env = ''positive'' then 10 else 6)
               else (if env = ''negative'' then 10 else 6))
        + 10 + 5
        - (if hasEarningsNear context then 10 else 0))))))"
  unfolding calculateStrategyScore_rocTerm[OF assms] jround.simps calculateIVRScore_def
    calculateGEXScore_def isSellerType_def
  by (rule refl)

lemma rocTerm_values:
  "rocTerm (Fin r) = Fin (min ((r / 50) * 20) 20)"
  "rocTerm PosInf = Fin (min ((50 / 50) * 20) 20)"
  "rocTerm NegInf = NegInf"
  "rocTerm NaN = NaN"
  by (simp_all add: rocTerm_def)

lemma calculateStrategyScore_Inf:
  "roc s = NegInf \<Longrightarrow> jround (calculateStrategyScore s context) = Fin 0"
  "roc s = NaN \<Longrightarrow> jround (calculateStrategyScore s context) = NaN"
  unfolding calculateStrategyScore_def Let_def
  by (simp_all add: rocTerm_values jsub_def js_round_def)

lemma roundedScore_range:
  assumes "roc s \<noteq> NaN"
  shows "\<exists>n. jround (calculateStrategyScore s context) = Fin (of_int n) \<and> 0 \<le> n \<and> n \<le> 100"
proof (cases "roc s")
  case NaN
  with assms show ?thesis by simp
next
  case (Fin r)
  then have "rocTerm (roc s) = Fin (min ((r / 50) * 20) 20)"
    by (simp only: rocTerm_values)
  then show ?thesis
    unfolding calculateStrategyScore_explicit[OF \<open>rocTerm (roc s) = Fin (min ((r / 50) * 20) 20)\<close>]
    using js_round_clamp by blast
next
  case PosInf
  then have r: "rocTerm (roc s) = Fin (min ((50 / 50) * 20) 20)"
    by (simp only: rocTerm_values)
  show ?thesis
    unfolding calculateStrategyScore_explicit[OF r]
    using js_round_clamp by blast
next
  case NegInf
  show ?thesis
    unfolding calculateStrategyScore_Inf(1)[OF NegInf] by (intro exI[of _ 0]) simp
qed

lemma scoreAndRankStrategies_entries:
  "mset (scoreAndRankStrategies strategies context)
     = mset (map (\<lambda>s. \<lparr>cand = s, score = jround (calculateStrategyScore s context)\<rparr>) strategies)"
  by (simp add: scoreAndRankStrategies_def Let_def mset_sortByScore)

lemma scoreAndRankStrategies_score:
  assumes "e \<in> set (scoreAndRankStrategies strategies context)"
  shows "cand e \<in> set strategies" "score e = jround (calculateStrategyScore (cand e) context)"
proof -
  have "set (scoreAndRankStrategies strategies context)
     = set (map (\<lambda>s. \<lparr>cand = s, score = jround (calculateStrategyScore s context)\<rparr>) strategies)"
    using scoreAndRankStrategies_entries[of strategies "context"] by (metis set_mset_mset)
  with assms obtain s where "s \<in> set strategies"
    "e = \<lparr>cand = s, score = jround (calculateStrategyScore s context)\<rparr>"
    by auto
  then show "cand e \<in> set strategies" "score e = jround (calculateStrategyScore (cand e) context)"
    by simp_all
qed

text \<open>
  C3, as the code has it. \<open>scoreAndRankStrategies\<close> returns the candidates it was given,
  each with its score, and in the order of the scores, highest first, when no
  \<open>roc\<close> is NaN. The score of a candidate whose \<open>roc\<close> is not NaN is an integer
  between 0 and 100: the sum of seven terms, less 10 when earnings are near, clamped to
  [0, 100] and rounded to the nearest integer. The terms are a quarter of the win rate;
  \<open>roc / 50 * 20\<close>, at most 20; 15 hundredths of the technical score; the IV-rank fit,
  with the steps 75, 50 and 25 for the three seller types and 25 and 50 for the others;
  the gamma fit by seller type; and the constants 10 and 5. There is no term for the
  direction. An infinite \<open>roc\<close> counts as 50 when positive and gives the score 0 when
  negative; with a NaN \<open>roc\<close> the score is NaN.
\<close>

theorem score_in_range:
  "mset (map cand (scoreAndRankStrategies strategies context)) = mset strategies
   \<and> ((\<forall>s \<in> set strategies. roc s \<noteq> NaN) \<longrightarrow>
        sorted_wrt (\<lambda>a b. jle (score b) (score a)) (scoreAndRankStrategies strategies context))
   \<and> (\<forall>e \<in> set (scoreAndRankStrategies strategies context).
        (roc (cand e) = NaN \<longrightarrow> score e = NaN)
      \<and> (roc (cand e) = NegInf \<longrightarrow> score e = Fin 0)
      \<and> (roc (cand e) \<noteq> NaN \<longrightarrow>
           (\<exists>n. score e = Fin (of_int n) \<and> 0 \<le> n \<and> n \<le> 100))
      \<and> (\<forall>r. roc (cand e) = Fin r \<or> (roc (cand e) = PosInf \<and> r = 50) \<longrightarrow>
           score e = Fin (of_int (js_round (max 0 (min 100
             ((winRate (cand e) / 100) * 25
              + min ((r / 50) * 20) 20
              + (ctxTaScore context / 100) * 15
              + (if type (cand e) = ''iron_condor'' \<or> type (cand e) = ''credit_spread''
                    \<or> type (cand e) = ''cash_secured_put''
                 then (if ctxIvRank context \<ge> 75 then 15
                       else if ctxIvRank context \<ge> 50 then 12
                       else if ctxIvRank context \<ge> 25 then 8 else 4)
                 else (if ctxIvRank context < 25 then 15
                       else if ctxIvRank context < 50 then 10 else 5))
              + (case ctxGammaEnvironment context of
                   None \<Rightarrow> 5
                 | Some env \<Rightarrow>
                     if env = [] then 5
                     else if type (cand e) = ''iron_condor'' \<or> type (cand e) = ''credit_spread''
                             \<or> type (cand e) = ''cash_secured_put''
                     then (if env = ''positive'' then 10 else 6)
                     else (if env = ''negative'' then 10 else 6))
              + 10 + 5
              - (if hasEarningsNear context then 10 else 0))))))))"
proof (intro conjI impI ballI allI)
  let ?L = "map (\<lambda>s. \<lparr>cand = s, score = jround (calculateStrategyScore s context)\<rparr>) strategies"
  have "mset (map cand (scoreAndRankStrategies strategies context)) = mset (map cand ?L)"
    using scoreAndRankStrategies_entries[of strategies "context"] by (metis mset_map)
  also have "map cand ?L = strategies" by (simp add: comp_def)
  finally show "mset (map cand (scoreAndRankStrategies strategies context)) = mset strategies" .
  assume ok: "\<forall>s \<in> set strategies. roc s \<noteq> NaN"
  have "\<forall>e \<in> set ?L. score e \<noteq> NaN"
  proof
    fix e assume "e \<in> set ?L"
    then obtain s where s: "s \<in> set strategies"
      and e: "e = \<lparr>cand = s, score = jround (calculateStrategyScore s context)\<rparr>"
      by auto
    from roundedScore_range[of s "context"] ok s
    obtain n where "jround (calculateStrategyScore s context) = Fin (of_int n)" by blast
    then show "score e \<noteq> NaN" by (simp add: e)
  qed
  then show "sorted_wrt (\<lambda>a b. jle (score b) (score a)) (scoreAndRankStrategies strategies context)"
    unfolding scoreAndRankStrategies_def Let_def by (rule sortByScore_descending)
next
  fix e assume e: "e \<in> set (scoreAndRankStrategies strategies context)"
  note sc = scoreAndRankStrategies_score(2)[OF e]
  {
    assume "roc (cand e) = NaN"
    then show "score e = NaN" unfolding sc by (rule calculateStrategyScore_Inf(2))
  next
    assume "roc (cand e) = NegInf"
    then show "score e = Fin 0" unfolding sc by (rule calculateStrategyScore_Inf(1))
  next
    assume "roc (cand e) \<noteq> NaN"
    then show "\<exists>n. score e = Fin (of_int n) \<and> 0 \<le> n \<and> n \<le> 100"
      unfolding sc by (rule roundedScore_range)
  next
    fix r
    assume "roc (cand e) = Fin r \<or> (roc (cand e) = PosInf \<and> r = 50)"
    then show "score e = Fin (of_int (js_round (max 0 (min 100
             ((winRate (cand e) / 100) * 25
              + min ((r / 50) * 20) 20
              + (ctxTaScore context / 100) * 15
              + (if type (cand e) = ''iron_condor'' \<or> type (cand e) = ''credit_spread''
                    \<or> type (cand e) = ''cash_secured_put''
                 then (if ctxIvRank context \<ge> 75 then 15
                       else if ctxIvRank context \<ge> 50 then 12
                       else if ctxIvRank context \<ge> 25 then 8 else 4)
                 else (if ctxIvRank context < 25 then 15
                       else if ctxIvRank context < 50 then 10 else 5))
              + (case ctxGammaEnvironment context of
                   None \<Rightarrow> 5
                 | Some env \<Rightarrow>
                     if env = [] then 5
                     else if type (cand e) = ''iron_condor'' \<or> type (cand e) = ''credit_spread''
                             \<or> type (cand e) = ''cash_secured_put''
                     then (if env = ''positive'' then 10 else 6)
                     else (if env = ''negative'' then 10 else 6))
              + 10 + 5
              - (if hasEarningsNear context then 10 else 0))))))"
    proof
      assume "roc (cand e) = Fin r"
      then have "rocTerm (roc (cand e)) = Fin (min ((r / 50) * 20) 20)"
        by (simp only: rocTerm_values)
      then show ?thesis unfolding sc by (rule calculateStrategyScore_explicit)
    next
      assume inf: "roc (cand e) = PosInf \<and> r = 50"
      then have "rocTerm (roc (cand e)) = Fin (min ((r / 50) * 20) 20)"
        by (simp only: rocTerm_values)
      then show ?thesis unfolding sc by (rule calculateStrategyScore_explicit)
    qed
  }
qed

lemma exampleStrategies_scored:
  "map (\<lambda>s. \<lparr>cand = s, score = jround (calculateStrategyScore s exampleContext)\<rparr>)
     exampleStrategies
   = [\<lparr>cand = exampleStrategies ! 0, score = Fin 57\<rparr>,
      \<lparr>cand = exampleStrategies ! 1, score = Fin 55\<rparr>,
      \<lparr>cand = exampleStrategies ! 2, score = Fin 59\<rparr>]"
  by (simp add: exampleStrategies_def exampleIronCondor_def exampleContext_def
      calculateStrategyScore_def Let_def rocTerm_def calculateIVRScore_def calculateGEXScore_def
      isSellerType_def jsub_def js_round_def)

lemma exampleStrategies_ranked:
  "scoreAndRankStrategies exampleStrategies exampleContext
   = [\<lparr>cand = exampleStrategies ! 2, score = Fin 59\<rparr>,
      \<lparr>cand = exampleStrategies ! 0, score = Fin 57\<rparr>,
      \<lparr>cand = exampleStrategies ! 1, score = Fin 55\<rparr>]"
proof -
  let ?L = "[\<lparr>cand = exampleStrategies ! 0, score = Fin 57\<rparr>,
      \<lparr>cand = exampleStrategies ! 1, score = Fin 55\<rparr>,
      \<lparr>cand = exampleStrategies ! 2, score = Fin 59\<rparr>]"
  have "sortByScore ?L = sort_key (\<lambda>s. rankKey (score s)) ?L"
    by (rule sortByScore_sort_key) simp
  then show ?thesis
    unfolding scoreAndRankStrategies_def Let_def exampleStrategies_scored
    by simp
qed

text \<open>
  The three example candidates, scored 57, 55 and 59 in the example context, are returned
  in the order 59, 57, 55; the 59 of the credit spread is the rounding of 59.35.
\<close>

theorem score_in_range_witness:
  "map roc exampleStrategies = [Fin 1, Fin 8, Fin 4]
   \<and> map (type \<circ> cand) (scoreAndRankStrategies exampleStrategies exampleContext)
       = [''credit_spread'', ''cash_secured_put'', ''iron_condor'']
   \<and> map score (scoreAndRankStrategies exampleStrategies exampleContext)
       = [Fin 59, Fin 57, Fin 55]
   \<and> mset (map cand (scoreAndRankStrategies exampleStrategies exampleContext))
       = mset exampleStrategies
   \<and> sorted_wrt (\<lambda>a b. jle (score b) (score a))
        (scoreAndRankStrategies exampleStrategies exampleContext)
   \<and> (\<exists>n. score (hd (scoreAndRankStrategies exampleStrategies exampleContext)) = Fin (of_int n)
         \<and> 0 \<le> n \<and> n \<le> 100
         \<and> n = js_round (max 0 (min 100 ((84 / 100) * 25 + min ((4 / 50) * 20) 20
                 + (65 / 100) * 15 + 12 + 10 + 10 + 5 - 10))))"
proof -
  have r: "map roc exampleStrategies = [Fin 1, Fin 8, Fin 4]"
    by (simp add: exampleStrategies_def exampleIronCondor_def)
  then have ok: "\<forall>s \<in> set exampleStrategies. roc s \<noteq> NaN"
    by (simp add: exampleStrategies_def exampleIronCondor_def)
  let ?out = "scoreAndRankStrategies exampleStrategies exampleContext"
  let ?e = "\<lparr>cand = exampleStrategies ! 2, score = Fin 59\<rparr>"
  have e: "?e \<in> set ?out" "hd ?out = ?e"
    by (simp_all add: exampleStrategies_ranked)
  have f: "roc (exampleStrategies ! 2) = Fin 4" "winRate (exampleStrategies ! 2) = 84"
    "type (exampleStrategies ! 2) = ''credit_spread''"
    by (simp_all add: exampleStrategies_def)
  have f1: "roc (cand ?e) = Fin 4" by (simp add: f)
  note t = score_in_range[of exampleStrategies exampleContext]
  from t ok have "mset (map cand ?out) = mset exampleStrategies"
    and "sorted_wrt (\<lambda>a b. jle (score b) (score a)) ?out"
    by blast+
  moreover from t e(1) f1
  have "score ?e = Fin (of_int (js_round (max 0 (min 100
             ((winRate (cand ?e) / 100) * 25
              + min ((4 / 50) * 20) 20
              + (ctxTaScore exampleContext / 100) * 15
              + (if type (cand ?e) = ''iron_condor'' \<or> type (cand ?e) = ''credit_spread''
                    \<or> type (cand ?e) = ''cash_secured_put''
                 then (if ctxIvRank exampleContext \<ge> 75 then 15
                       else if ctxIvRank exampleContext \<ge> 50 then 12
                       else if ctxIvRank exampleContext \<ge> 25 then 8 else 4)
                 else (if ctxIvRank exampleContext < 25 then 15
                       else if ctxIvRank exampleContext < 50 then 10 else 5))
              + (case ctxGammaEnvironment exampleContext of
                   None \<Rightarrow> 5
                 | Some env \<Rightarrow>
                     if env = [] then 5
                     else if type (cand ?e) = ''iron_condor'' \<or> type (cand ?e) = ''credit_spread''
                             \<or> type (cand ?e) = ''cash_secured_put''
                     then (if env = ''positive'' then 10 else 6)
                     else (if env = ''negative'' then 10 else 6))
              + 10 + 5
              - (if hasEarningsNear exampleContext then 10 else 0))))))"
    by blast
  then have "score ?e = Fin (of_int (js_round (max 0 (min 100 ((84 / 100) * 25
      + min ((4 / 50) * 20) 20 + (65 / 100) * 15 + 12 + 10 + 10 + 5 - 10)))))"
    by (simp add: f exampleContext_def)
  then have "\<exists>n. score ?e = Fin (of_int n) \<and> 0 \<le> n \<and> n \<le> 100
         \<and> n = js_round (max 0 (min 100 ((84 / 100) * 25 + min ((4 / 50) * 20) 20
                 + (65 / 100) * 15 + 12 + 10 + 10 + 5 - 10)))"
    using js_round_clamp by blast
  moreover have "map (type \<circ> cand) ?out
       = [''credit_spread'', ''cash_secured_put'', ''iron_condor'']"
    "map score ?out = [Fin 59, Fin 57, Fin 55]"
    unfolding exampleStrategies_ranked
    by (simp_all add: exampleStrategies_def exampleIronCondor_def)
  ultimately show ?thesis
    using r unfolding e(2) by blast
qed

text \<open>
  The formula of the specification on the example iron condor, a neutral net seller, at an
  IV rank of 72: whatever the liquidity term between 5 and 10, the score is at least 68.
\<close>

lemma spec_score_liquidity:
  assumes "5 \<le> liquidity" "liquidity \<le> 10"
  shows "68 \<le> spec_score 60 8 True ''neutral'' exampleContext72 liquidity"
proof -
  have "spec_score 60 8 True ''neutral'' exampleContext72 liquidity
      = js_round (max 0 (min 100 (62.95 + liquidity)))"
    by (simp add: spec_score_def spec_ivRankFit_def spec_directionFit_def spec_gammaFit_def
        exampleContext72_def exampleContext_def)
  also have "\<dots> = js_round (62.95 + liquidity)"
    using assms by (simp add: max_def min_def)
  also have "\<dots> \<ge> 68"
    unfolding js_round_def using assms by (simp add: le_floor_iff)
  finally show ?thesis .
qed

text \<open>
  The code gives that iron condor the score 65: 15 + 3.2 + 9.75 and the terms 12, 10, 10
  and 5. The terms of the specification give 63 without a liquidity term, 68 with a
  liquidity term of 5 and 73 with one of 10: the IV-rank fit is 15 there, and there is a
  direction-fit term.
\<close>

theorem score_in_range_counterexample:
  "scoreAndRankStrategies [exampleIronCondor] exampleContext72
     = [\<lparr>cand = exampleIronCondor, score = Fin 65\<rparr>]
   \<and> winRate exampleIronCondor = 60 \<and> roc exampleIronCondor = Fin 8
   \<and> spec_score 60 8 True ''neutral'' exampleContext72 0 = 63
   \<and> spec_score 60 8 True ''neutral'' exampleContext72 5 = 68
   \<and> spec_score 60 8 True ''neutral'' exampleContext72 10 = 73"
  by (simp add: scoreAndRankStrategies_def sortByScore_def arraySort_def
      exampleIronCondor_def exampleContext72_def exampleContext_def
      calculateStrategyScore_def Let_def rocTerm_def calculateIVRScore_def calculateGEXScore_def
      isSellerType_def jsub_def js_round_def spec_score_def spec_ivRankFit_def
      spec_directionFit_def spec_gammaFit_def)

section \<open>Properties of the volatility model\<close>

lemma js_round_mono: "x \<le> y \<Longrightarrow> js_round x \<le> js_round y"
  unfolding js_round_def by (simp add: floor_mono)

lemma roundedCents_mono:
  assumes "roundsToDouble fl" "x \<le> y"
  shows "roundedCents fl x \<le> roundedCents fl y"
proof -
  have m: "\<And>a b. a \<le> b \<Longrightarrow> fl a \<le> fl b"
    using assms(1) by (simp add: roundsToDouble_def mono_def)
  have "fl (x * 100) \<le> fl (y * 100)" using assms(2) by (intro m) simp
  then have "js_round (fl (x * 100)) \<le> js_round (fl (y * 100))" by (rule js_round_mono)
  then have "real_of_int (js_round (fl (x * 100))) / 100 \<le> real_of_int (js_round (fl (y * 100))) / 100"
    by simp
  then show ?thesis unfolding roundedCents_def by (rule m)
qed

lemma round2_Fin: "round2 fl (Fin x) = Fin (roundedCents fl x)"
  by (simp add: round2_def roundedCents_def)

lemma roundedCents_id: "roundedCents id x = cents x"
  by (simp add: roundedCents_def cents_def)

lemma roundsToDouble_id: "roundsToDouble id"
  by (simp add: roundsToDouble_def mono_def)

lemma spec_move_pos: "0 < price \<Longrightarrow> 0 < iv \<Longrightarrow> 0 < days \<Longrightarrow> 0 < spec_move price iv days"
  by (simp add: spec_move_def)

lemma calculateVolatilityRange_positive:
  assumes fl: "roundsToDouble fl" and pos: "0 < price" "0 < iv" "0 < days"
  defines "m \<equiv> fl (fl (price * iv) * fl (sqrt (fl (days / 365))))"
  shows "calculateVolatilityRange fl (Fin price) (Fin iv) (Fin days) = Some
    \<lparr>vrCurrentPrice = Fin price, vrIv = Fin iv, vrDte = Fin days,
     oneSigma =
       \<lparr>upper = Fin (roundedCents fl (fl (price + m))),
        lower = Fin (roundedCents fl (fl (price - m))),
        move = Fin (roundedCents fl m),
        percent = Fin (roundedCents fl (fl (fl (m / price) * 100))),
        probability = 68.2\<rparr>,
     twoSigma =
       \<lparr>upper = Fin (roundedCents fl (fl (price + fl (m * 2)))),
        lower = Fin (roundedCents fl (fl (price - fl (m * 2)))),
        move = Fin (roundedCents fl (fl (m * 2))),
        percent = Fin (roundedCents fl (fl (fl (fl (m * 2) / price) * 100))),
        probability = 95.4\<rparr>\<rparr>"
    and "0 \<le> m" and "fl m = m"
proof -
  have mono: "\<And>a b. a \<le> b \<Longrightarrow> fl a \<le> fl b" and z: "fl 0 = 0"
    and idem: "\<And>x. fl (fl x) = fl x"
    using fl by (simp_all add: roundsToDouble_def mono_def)
  have nn: "0 \<le> fl x" if "0 \<le> x" for x
    using mono[OF that] z by simp
  have d: "0 \<le> fl (days / 365)" using pos by (intro nn) simp
  have t: "jfl fl (jsqrt (jfl fl (jdiv (Fin days) (Fin 365)))) = Fin (fl (sqrt (fl (days / 365))))"
    using d by simp
  have mv: "jfl fl (jmul (jfl fl (jmul (Fin price) (Fin iv))) (Fin (fl (sqrt (fl (days / 365))))))
      = Fin m"
    by (simp add: m_def)
  have nz: "price \<noteq> 0" "iv \<noteq> 0" "days \<noteq> 0"
    using pos by simp_all
  show "calculateVolatilityRange fl (Fin price) (Fin iv) (Fin days) = Some
    \<lparr>vrCurrentPrice = Fin price, vrIv = Fin iv, vrDte = Fin days,
     oneSigma =
       \<lparr>upper = Fin (roundedCents fl (fl (price + m))),
        lower = Fin (roundedCents fl (fl (price - m))),
        move = Fin (roundedCents fl m),
        percent = Fin (roundedCents fl (fl (fl (m / price) * 100))),
        probability = 68.2\<rparr>,
     twoSigma =
       \<lparr>upper = Fin (roundedCents fl (fl (price + fl (m * 2)))),
        lower = Fin (roundedCents fl (fl (price - fl (m * 2)))),
        move = Fin (roundedCents fl (fl (m * 2))),
        percent = Fin (roundedCents fl (fl (fl (fl (m * 2) / price) * 100))),
        probability = 95.4\<rparr>\<rparr>"
    unfolding calculateVolatilityRange_def Let_def t mv
    by (simp add: falsy_def nz jsub_def round2_Fin)
  have "0 \<le> fl (price * iv)" using pos by (intro nn) simp
  moreover have "0 \<le> fl (sqrt (fl (days / 365)))" using d by (intro nn) simp
  ultimately show "0 \<le> m" unfolding m_def by (intro nn) simp
  show "fl m = m" unfolding m_def by (rule idem)
qed

lemma calculateVolatilityRange_None:
  "calculateVolatilityRange fl price iv days = None \<longleftrightarrow> falsy price \<or> falsy iv \<or> falsy days"
  by (simp add: calculateVolatilityRange_def Let_def)

text \<open>
  C6, as the code has it. For a positive price, IV and number of days the band is
  computed. The one-sigma move is the product of the price, the IV and the square root of
  \<open>dte / 365\<close>, each operation rounded to a double; it is not negative; the two-sigma move
  is twice it. Every bound is the price plus or minus the move, and every bound and move
  that is returned is rounded to cents by \<open>Math.round(x * 100) / 100\<close>. With the price
  rounded to cents in the same way: two-sigma lower \<open>\<le>\<close> one-sigma lower \<open>\<le>\<close>
  price \<open>\<le>\<close> one-sigma upper \<open>\<le>\<close> two-sigma upper. None of these need be strict.
  This holds for every rounding \<open>fl\<close> that is monotone, exact at zero and idempotent, so
  for the rounding to the nearest double and for exact arithmetic; the price is a double.
\<close>

theorem volatility_band:
  assumes "roundsToDouble fl" and "fl price = price"
    and "0 < price" and "0 < iv" and "0 < days"
  shows "\<exists>r m l1 u1 l2 u2.
      calculateVolatilityRange fl (Fin price) (Fin iv) (Fin days) = Some r
    \<and> m = fl (fl (price * iv) * fl (sqrt (fl (days / 365)))) \<and> 0 \<le> m
    \<and> lower (oneSigma r) = Fin l1 \<and> l1 = roundedCents fl (fl (price - m))
    \<and> upper (oneSigma r) = Fin u1 \<and> u1 = roundedCents fl (fl (price + m))
    \<and> lower (twoSigma r) = Fin l2 \<and> l2 = roundedCents fl (fl (price - fl (m * 2)))
    \<and> upper (twoSigma r) = Fin u2 \<and> u2 = roundedCents fl (fl (price + fl (m * 2)))
    \<and> move (oneSigma r) = Fin (roundedCents fl m)
    \<and> move (twoSigma r) = Fin (roundedCents fl (fl (m * 2)))
    \<and> l2 \<le> l1 \<and> l1 \<le> roundedCents fl price \<and> roundedCents fl price \<le> u1 \<and> u1 \<le> u2"
proof -
  define m where "m = fl (fl (price * iv) * fl (sqrt (fl (days / 365))))"
  note r = calculateVolatilityRange_positive[OF assms(1,3,4,5), folded m_def]
  have mono: "\<And>a b. a \<le> b \<Longrightarrow> fl a \<le> fl b"
    using assms(1) by (simp add: roundsToDouble_def mono_def)
  have m2: "m \<le> fl (m * 2)"
    using mono[of m "m * 2"] r(2) r(3) by simp
  have o1: "fl (price - fl (m * 2)) \<le> fl (price - m)"
    using m2 by (intro mono) simp
  have o2: "fl (price - m) \<le> price"
    using mono[of "price - m" price] r(2) assms(2) by simp
  have o3: "price \<le> fl (price + m)"
    using mono[of price "price + m"] r(2) assms(2) by simp
  have o4: "fl (price + m) \<le> fl (price + fl (m * 2))"
    using m2 by (intro mono) simp
  note c = roundedCents_mono[OF assms(1)]
  show ?thesis
    unfolding r(1) m_def[symmetric]
    using r(2) c[OF o1] c[OF o2] c[OF o3] c[OF o4] by simp
qed

theorem volatility_band_witness:
  "roundsToDouble id \<and> id (100::real) = 100
   \<and> (0::real) < 100 \<and> (0::real) < 1 / 4 \<and> (0::real) < 365
   \<and> (\<exists>r. calculateVolatilityRange id (Fin 100) (Fin (1 / 4)) (Fin 365) = Some r
      \<and> lower (oneSigma r) = Fin 75 \<and> upper (oneSigma r) = Fin 125
      \<and> lower (twoSigma r) = Fin 50 \<and> upper (twoSigma r) = Fin 150
      \<and> move (oneSigma r) = Fin 25 \<and> move (twoSigma r) = Fin 50)"
proof -
  have v: "roundedCents id 75 = 75" "roundedCents id 125 = 125" "roundedCents id 50 = 50"
    "roundedCents id 150 = 150" "roundedCents id 25 = 25"
    by (simp_all add: roundedCents_def js_round_def)
  from volatility_band[OF roundsToDouble_id, of 100 "1 / 4" 365]
  obtain r where "calculateVolatilityRange id (Fin 100) (Fin (1 / 4)) (Fin 365) = Some r"
    and "lower (oneSigma r) = Fin (roundedCents id (id (100 - id (id (100 * (1 / 4)) * id (sqrt (id (365 / 365)))))))"
    and "upper (oneSigma r) = Fin (roundedCents id (id (100 + id (id (100 * (1 / 4)) * id (sqrt (id (365 / 365)))))))"
    and "lower (twoSigma r) = Fin (roundedCents id (id (100 - id (id (id (100 * (1 / 4)) * id (sqrt (id (365 / 365)))) * 2))))"
    and "upper (twoSigma r) = Fin (roundedCents id (id (100 + id (id (id (100 * (1 / 4)) * id (sqrt (id (365 / 365)))) * 2))))"
    and "move (oneSigma r) = Fin (roundedCents id (id (id (100 * (1 / 4)) * id (sqrt (id (365 / 365))))))"
    and "move (twoSigma r) = Fin (roundedCents id (id (id (id (100 * (1 / 4)) * id (sqrt (id (365 / 365)))) * 2)))"
    by auto
  then have "calculateVolatilityRange id (Fin 100) (Fin (1 / 4)) (Fin 365) = Some r
      \<and> lower (oneSigma r) = Fin 75 \<and> upper (oneSigma r) = Fin 125
      \<and> lower (twoSigma r) = Fin 50 \<and> upper (twoSigma r) = Fin 150
      \<and> move (oneSigma r) = Fin 25 \<and> move (twoSigma r) = Fin 50"
    by (simp add: v)
  then show ?thesis
    using roundsToDouble_id by auto
qed

text \<open>
  A price of 1 with an IV of 1/1024 over 365 days: the move is less than a tenth of a
  cent, and the one-sigma and two-sigma bounds all round to the price itself, the move to
  0. Every intermediate result is a double, so nothing is rounded before
  \<open>Math.round\<close>.
\<close>

theorem volatility_band_counterexample:
  "map_option (upper \<circ> oneSigma) (calculateVolatilityRange id (Fin 1) (Fin (1 / 1024)) (Fin 365))
     = Some (Fin 1)
   \<and> map_option (lower \<circ> oneSigma) (calculateVolatilityRange id (Fin 1) (Fin (1 / 1024)) (Fin 365))
     = Some (Fin 1)
   \<and> map_option (move \<circ> oneSigma) (calculateVolatilityRange id (Fin 1) (Fin (1 / 1024)) (Fin 365))
     = Some (Fin 0)
   \<and> map_option (upper \<circ> twoSigma) (calculateVolatilityRange id (Fin 1) (Fin (1 / 1024)) (Fin 365))
     = Some (Fin 1)
   \<and> map_option (lower \<circ> twoSigma) (calculateVolatilityRange id (Fin 1) (Fin (1 / 1024)) (Fin 365))
     = Some (Fin 1)
   \<and> spec_move 1 (1 / 1024) 365 = 1 / 1024"
  by (simp add: calculateVolatilityRange_positive(1)[OF roundsToDouble_id] roundedCents_def
      js_round_def spec_move_def)

text \<open>
  C7, as the code has it. \<open>calculateVolatilityRange\<close> returns \<open>null\<close> exactly when
  the price, the IV or the number of days is falsy, that is missing, NaN or zero.
  Every other input gets a band object: strictly positive inputs, and negative ones as
  well. The rounding of the arithmetic plays no part in this.
\<close>

theorem volatility_guard:
  "(calculateVolatilityRange fl price iv days = None
      \<longleftrightarrow> falsy price \<or> falsy iv \<or> falsy days)
   \<and> (falsy v \<longleftrightarrow> v = NaN \<or> v = Fin 0)
   \<and> (0 < p \<and> 0 < i \<and> 0 < t \<longrightarrow>
        (\<exists>r. calculateVolatilityRange fl (Fin p) (Fin i) (Fin t) = Some r))
   \<and> (p \<noteq> 0 \<and> i \<noteq> 0 \<and> t \<noteq> 0 \<longrightarrow>
        (\<exists>r. calculateVolatilityRange fl (Fin p) (Fin i) (Fin t) = Some r))"
proof -
  have some: "\<exists>r. calculateVolatilityRange fl (Fin p) (Fin i) (Fin t) = Some r"
    if "p \<noteq> 0" "i \<noteq> 0" "t \<noteq> 0"
    using that calculateVolatilityRange_None[of fl "Fin p" "Fin i" "Fin t"]
    by (simp add: falsy_def)
  show ?thesis
    using some by (auto simp: calculateVolatilityRange_None falsy_def)
qed

theorem volatility_guard_witness:
  "calculateVolatilityRange id (Fin 0) (Fin 0.3) (Fin 7) = None
   \<and> calculateVolatilityRange id (Fin 100) NaN (Fin 7) = None
   \<and> (0::real) < 100 \<and> (0::real) < 0.3 \<and> (0::real) < 7
   \<and> (\<exists>r. calculateVolatilityRange id (Fin 100) (Fin 0.3) (Fin 7) = Some r)
   \<and> (\<exists>r. calculateVolatilityRange id (Fin (- 100)) (Fin 0.3) (Fin 7) = Some r)"
  using volatility_guard[of id "Fin 0" "Fin 0.3" "Fin 7" NaN 100 "0.3" 7]
    volatility_guard[of id "Fin 100" NaN "Fin 7" "Fin 0" "- 100" "0.3" 7]
  by simp

text \<open>
  A negative price is not refused: the band of a price of -100 is computed, with its
  upper bound below its lower bound. A negative number of days is not refused either:
  the bounds of the band are NaN.
\<close>

theorem volatility_guard_counterexample:
  "map_option (upper \<circ> oneSigma)
       (calculateVolatilityRange id (Fin (- 100)) (Fin 0.3) (Fin 365)) = Some (Fin (- 130))
   \<and> map_option (lower \<circ> oneSigma)
       (calculateVolatilityRange id (Fin (- 100)) (Fin 0.3) (Fin 365)) = Some (Fin (- 70))
   \<and> map_option (upper \<circ> oneSigma)
       (calculateVolatilityRange id (Fin 100) (Fin 0.3) (Fin (- 365))) = Some NaN"
  by (simp add: calculateVolatilityRange_def Let_def falsy_def round2_def jsub_def js_round_def)

section \<open>Properties of the probability model\<close>

lemma cdfPoly_expand:
  "cdfPoly t = 0.3193815 * t - 0.3565638 * t^2 + 1.781478 * t^3 - 1.821256 * t^4
     + 1.330274 * t^5"
  unfolding cdfPoly_def by (simp add: algebra_simps power2_eq_square power3_eq_cube power4_eq_xxxx)
     (simp add: power_def)

lemma cdfPoly_deriv: "(cdfPoly has_real_derivative cdfPolyD t) (at t)"
proof -
  have "((\<lambda>t. 0.3193815 * t - 0.3565638 * t^2 + 1.781478 * t^3 - 1.821256 * t^4
     + 1.330274 * t^5) has_real_derivative cdfPolyD t) (at t)"
    unfolding cdfPolyD_def by (auto intro!: derivative_eq_intros)
  then show ?thesis
    by (simp add: cdfPoly_expand[abs_def])
qed

lemma cdfPolyD_nonneg:
  assumes "0 \<le> t"
  shows "0 \<le> cdfPolyD t"
proof -
  have q1: "0 \<le> t^2 - 0.7131276 * t + 0.3193815"
  proof -
    have "0 \<le> (t - 0.3565638)^2" by simp
    then show ?thesis
      by (simp add: power2_eq_square algebra_simps)
  qed
  have q2: "0 \<le> 6.65137 * t^2 - 7.285024 * t + 4.344434"
  proof -
    have "0 \<le> 6.65137 * (t - 0.55)^2" by simp
    then have "0 \<le> 6.65137 * t^2 - 7.316507 * t + 2.01203943"
      by (simp add: power2_eq_square algebra_simps)
    with assms show ?thesis by simp
  qed
  have "0 \<le> t^2 * (6.65137 * t^2 - 7.285024 * t + 4.344434)"
    using q2 by simp
  then have "0 \<le> 6.65137 * t^4 - 7.285024 * t^3 + 4.344434 * t^2"
    by (simp add: algebra_simps power2_eq_square power3_eq_cube power4_eq_xxxx)
  with q1 show ?thesis
    unfolding cdfPolyD_def by simp
qed

lemma cdfPoly_mono:
  assumes "0 \<le> s" "s \<le> t"
  shows "cdfPoly s \<le> cdfPoly t"
proof (rule DERIV_nonneg_imp_nondecreasing[OF assms(2)])
  fix x assume "s \<le> x" "x \<le> t"
  then have "0 \<le> x" using assms(1) by simp
  then show "\<exists>y. (cdfPoly has_real_derivative y) (at x) \<and> 0 \<le> y"
    using cdfPoly_deriv cdfPolyD_nonneg by blast
qed

lemma cdfPoly_nonneg: "0 \<le> t \<Longrightarrow> 0 \<le> cdfPoly t"
  using cdfPoly_mono[of 0 t] by (simp add: cdfPoly_def)

lemma cdfTail_antimono:
  assumes "0 \<le> x" "x \<le> y"
  shows "cdfTail y \<le> cdfTail x"
proof -
  have y: "0 \<le> y" using assms by simp
  have t: "0 \<le> 1 / (1 + 0.2316419 * y)" "1 / (1 + 0.2316419 * y) \<le> 1 / (1 + 0.2316419 * x)"
    using assms y by (simp_all add: frac_le)
  have P: "cdfPoly (1 / (1 + 0.2316419 * y)) \<le> cdfPoly (1 / (1 + 0.2316419 * x))"
    using t by (rule cdfPoly_mono)
  have P0: "0 \<le> cdfPoly (1 / (1 + 0.2316419 * y))"
    using t(1) by (rule cdfPoly_nonneg)
  have "x * x \<le> y * y"
    using assms by (simp add: mult_mono)
  then have E: "exp (- (y * y) / 2) \<le> exp (- (x * x) / 2)"
    by simp
  have "exp (- (y * y) / 2) * cdfPoly (1 / (1 + 0.2316419 * y))
      \<le> exp (- (x * x) / 2) * cdfPoly (1 / (1 + 0.2316419 * x))"
    using E P P0 by (intro mult_mono) simp_all
  then show ?thesis
    unfolding cdfTail_def by simp
qed

lemma cdfTail_nonneg: "0 \<le> x \<Longrightarrow> 0 \<le> cdfTail x"
  unfolding cdfTail_def by (intro mult_nonneg_nonneg cdfPoly_nonneg) simp_all

lemma cdfTail_0: "cdfTail 0 \<le> 1 / 2"
  by (simp add: cdfTail_def cdfPoly_def)

lemma cdfTail_half: "0 \<le> x \<Longrightarrow> cdfTail x \<le> 1 / 2"
  using cdfTail_antimono[of 0 x] cdfTail_0 by simp

lemma cdfReal_range: "0 \<le> cdfReal z" "cdfReal z \<le> 1"
  using cdfTail_nonneg[of z] cdfTail_nonneg[of "- z"] cdfTail_half[of z] cdfTail_half[of "- z"]
  by (auto simp: cdfReal_def)

lemma cdfReal_mono:
  assumes "a \<le> b"
  shows "cdfReal a \<le> cdfReal b"
proof -
  consider "0 < a" | "a \<le> 0" "0 < b" | "b \<le> 0" using assms by linarith
  then show ?thesis
  proof cases
    case 1
    then show ?thesis
      using assms cdfTail_antimono[of a b] by (simp add: cdfReal_def)
  next
    case 2
    then show ?thesis
      using cdfTail_half[of "- a"] cdfTail_half[of b] by (simp add: cdfReal_def)
  next
    case 3
    then show ?thesis
      using assms cdfTail_antimono[of "- b" "- a"] by (simp add: cdfReal_def)
  qed
qed

lemma normalCDF_shape:
  fixes k c b1 b2 b3 b4 b5 z :: real
  assumes "1 + k * \<bar>z\<bar> \<noteq> 0"
  shows "(let t = jdiv (Fin 1) (jadd (Fin 1) (jmul (Fin k) (jabs (Fin z))));
              d = jmul (Fin c) (jexp (jdiv (jmul (jneg (Fin z)) (Fin z)) (Fin 2)));
              prob = jmul (jmul d t)
                (jadd (Fin b1) (jmul t
                  (jadd (Fin b2) (jmul t
                    (jadd (Fin b3) (jmul t
                      (jadd (Fin b4) (jmul t (Fin b5)))))))))
          in if jgt (Fin z) (Fin 0) then jsub (Fin 1) prob else prob)
     = Fin (if 0 < z
            then 1 - c * exp (- (\<bar>z\<bar> * \<bar>z\<bar>) / 2) * (1 / (1 + k * \<bar>z\<bar>) * (b1 + 1 / (1 + k * \<bar>z\<bar>)
                   * (b2 + 1 / (1 + k * \<bar>z\<bar>) * (b3 + 1 / (1 + k * \<bar>z\<bar>)
                   * (b4 + 1 / (1 + k * \<bar>z\<bar>) * b5)))))
            else c * exp (- (\<bar>z\<bar> * \<bar>z\<bar>) / 2) * (1 / (1 + k * \<bar>z\<bar>) * (b1 + 1 / (1 + k * \<bar>z\<bar>)
                   * (b2 + 1 / (1 + k * \<bar>z\<bar>) * (b3 + 1 / (1 + k * \<bar>z\<bar>)
                   * (b4 + 1 / (1 + k * \<bar>z\<bar>) * b5))))))"
proof -
  define T where "T = 1 / (1 + k * \<bar>z\<bar>)"
  have t: "jdiv (Fin 1) (jadd (Fin 1) (jmul (Fin k) (jabs (Fin z)))) = Fin T"
    using assms by (simp add: T_def)
  have d: "jmul (Fin c) (jexp (jdiv (jmul (jneg (Fin z)) (Fin z)) (Fin 2)))
      = Fin (c * exp (- (\<bar>z\<bar> * \<bar>z\<bar>) / 2))"
    by simp
  show ?thesis
    unfolding Let_def t d T_def[symmetric]
    by (simp add: jsub_def mult.assoc)
qed

lemma abs_coeff_nz: "1 + 0.2316419 * \<bar>z::real\<bar> \<noteq> 0"
proof -
  have "0 \<le> 0.2316419 * \<bar>z\<bar>" by simp
  then have "0 < 1 + 0.2316419 * \<bar>z\<bar>" by linarith
  then show ?thesis by simp
qed

lemma normalCDF_abs:
  "normalCDF (Fin z) = Fin (if 0 < z then 1 - cdfTail \<bar>z\<bar> else cdfTail \<bar>z\<bar>)"
  unfolding normalCDF_def cdfTail_def cdfPoly_def
  by (rule normalCDF_shape[OF abs_coeff_nz])

lemma normalCDF_Fin: "normalCDF (Fin z) = Fin (cdfReal z)"
proof (cases "0 < z")
  case True
  then have "\<bar>z\<bar> = z" by simp
  with True show ?thesis
    by (simp only: normalCDF_abs cdfReal_def if_True)
next
  case False
  then have "\<bar>z\<bar> = - z" by simp
  with False show ?thesis
    by (simp only: normalCDF_abs cdfReal_def if_False)
qed

lemma normalCDF_Inf: "normalCDF PosInf = Fin 1" "normalCDF NegInf = Fin 0"
  by (simp_all add: normalCDF_def jsub_def)

lemma normalCDF_ext: "z \<noteq> NaN \<Longrightarrow> normalCDF z = Fin (cdfExt z)"
  by (cases z) (simp_all add: normalCDF_Fin normalCDF_Inf)

lemma cdfExt_range: "0 \<le> cdfExt z" "cdfExt z \<le> 1"
  by (cases z; simp add: cdfReal_range)+

lemma zscore_not_NaN:
  assumes "0 < \<sigma>" "b \<noteq> NaN"
  shows "jdiv (jsub b (Fin p)) (Fin \<sigma>) \<noteq> NaN"
  using assms by (cases b) (simp_all add: jsub_def)

lemma cdf_zscore_mono:
  assumes "0 < \<sigma>" "jle a b"
  shows "cdfExt (jdiv (jsub a (Fin p)) (Fin \<sigma>)) \<le> cdfExt (jdiv (jsub b (Fin p)) (Fin \<sigma>))"
proof (cases a)
  case NaN
  with assms show ?thesis by simp
next
  case NegInf
  with assms show ?thesis by (simp add: jsub_def cdfExt_range)
next
  case PosInf
  with assms show ?thesis by (cases b) (simp_all add: jsub_def)
next
  case (Fin x)
  note a = this
  show ?thesis
  proof (cases b)
    case (Fin y)
    with a assms have "(x - p) / \<sigma> \<le> (y - p) / \<sigma>"
      by (simp add: divide_right_mono)
    then show ?thesis
      using a Fin assms(1) by (simp add: jsub_def cdfReal_mono)
  next
    case PosInf
    with a assms show ?thesis by (simp add: jsub_def cdfReal_range)
  qed (use a assms in simp_all)
qed

lemma jsub_Fin: "jsub (Fin a) (Fin b) = Fin (a - b)"
  by (simp add: jsub_def)

lemma probability_value:
  assumes "0 < price" "0 < iv" "0 < days" "\<not> falsy L" "\<not> falsy U"
  shows "calculateProbabilityInRange (Fin price) L U (Fin iv) (Fin days)
    = Some (Fin (max 0 (min 1
        (cdfExt (jdiv (jsub U (Fin price)) (Fin (spec_move price iv days)))
         - cdfExt (jdiv (jsub L (Fin price)) (Fin (spec_move price iv days)))))))"
proof -
  let ?\<sigma> = "spec_move price iv days"
  have s: "0 < ?\<sigma>" using assms(1-3) by (rule spec_move_pos)
  have sigma: "jmul (jmul (Fin price) (Fin iv)) (jsqrt (jdiv (Fin days) (Fin 365))) = Fin ?\<sigma>"
    using assms(3) by (simp add: spec_move_def)
  have nn: "L \<noteq> NaN" "U \<noteq> NaN"
    using assms(4,5) by (auto simp: falsy_def)
  have guard: "\<not> (falsy (Fin price) \<or> falsy L \<or> falsy U \<or> falsy (Fin iv) \<or> falsy (Fin days))"
    using assms by (simp add: falsy_def)
  note cdf = normalCDF_ext[OF zscore_not_NaN[OF s nn(1)]]
    normalCDF_ext[OF zscore_not_NaN[OF s nn(2)]]
  show ?thesis
    unfolding calculateProbabilityInRange_def Let_def
    by (simp only: guard if_False sigma cdf jsub_Fin jmin.simps jmax.simps)
qed

lemma clamp01_mono: "x \<le> y \<Longrightarrow> max 0 (min 1 x) \<le> max 0 (min (1::real) y)"
  by (simp add: max_def min_def)

lemma calculateProbabilityInRange_None:
  "calculateProbabilityInRange price lowerBound upperBound iv days = None
     \<longleftrightarrow> falsy price \<or> falsy lowerBound \<or> falsy upperBound \<or> falsy iv \<or> falsy days"
  by (simp add: calculateProbabilityInRange_def Let_def)

text \<open>
  C8, as the code has it. For a positive price, IV and number of days, and bounds
  \<open>L' \<le> L \<le> U \<le> U'\<close> none of which is zero (or missing), finite or infinite, both
  calls return a probability, each in [0, 1], and the one of the wider interval
  \<open>[L', U']\<close> is at least the one of \<open>[L, U]\<close>. Numbers are real numbers here, with
  the exact exponential function.
\<close>

theorem probability_monotone:
  assumes "0 < price" and "0 < iv" and "0 < days"
    and "jle L' L" and "jle L U" and "jle U U'"
    and "\<not> falsy L'" and "\<not> falsy L" and "\<not> falsy U" and "\<not> falsy U'"
  shows "\<exists>q q'.
      calculateProbabilityInRange (Fin price) L U (Fin iv) (Fin days) = Some (Fin q)
    \<and> calculateProbabilityInRange (Fin price) L' U' (Fin iv) (Fin days) = Some (Fin q')
    \<and> 0 \<le> q \<and> q \<le> q' \<and> q' \<le> 1"
proof -
  let ?\<sigma> = "spec_move price iv days"
  let ?c = "\<lambda>b. cdfExt (jdiv (jsub b (Fin price)) (Fin ?\<sigma>))"
  have s: "0 < ?\<sigma>" using assms(1-3) by (rule spec_move_pos)
  have "?c L' \<le> ?c L" "?c U \<le> ?c U'"
    using assms(4,6) s by (simp_all add: cdf_zscore_mono)
  then have "?c U - ?c L \<le> ?c U' - ?c L'" by simp
  then have le: "max 0 (min 1 (?c U - ?c L)) \<le> max 0 (min 1 (?c U' - ?c L'))"
    by (rule clamp01_mono)
  have lo: "0 \<le> max 0 (min 1 (?c U - ?c L))"
    and hi: "max 0 (min 1 (?c U' - ?c L')) \<le> 1"
    by simp_all
  from probability_value[OF assms(1-3) assms(8,9)]
    probability_value[OF assms(1-3) assms(7,10)] lo le hi
  show ?thesis
    by (intro exI conjI)
qed

theorem probability_monotone_witness:
  "(0::real) < 100 \<and> (0::real) < 0.3 \<and> (0::real) < 365
   \<and> jle (Fin 80) (Fin 90) \<and> jle (Fin 90) (Fin 110) \<and> jle (Fin 110) PosInf
   \<and> \<not> falsy (Fin 80) \<and> \<not> falsy (Fin 90) \<and> \<not> falsy (Fin 110) \<and> \<not> falsy PosInf
   \<and> (\<exists>q q'.
        calculateProbabilityInRange (Fin 100) (Fin 90) (Fin 110) (Fin 0.3) (Fin 365)
          = Some (Fin q)
      \<and> calculateProbabilityInRange (Fin 100) (Fin 80) PosInf (Fin 0.3) (Fin 365)
          = Some (Fin q')
      \<and> 0 \<le> q \<and> q \<le> q' \<and> q' \<le> 1)"
proof -
  have h: "(0::real) < 100" "(0::real) < 0.3" "(0::real) < 365"
    "jle (Fin 80) (Fin 90)" "jle (Fin 90) (Fin 110)" "jle (Fin 110) PosInf"
    "\<not> falsy (Fin 80)" "\<not> falsy (Fin 90)" "\<not> falsy (Fin 110)" "\<not> falsy PosInf"
    by (simp_all add: falsy_def)
  from probability_monotone[OF h] h show ?thesis
    by (intro conjI)
qed

text \<open>
  Widening the lower bound from 90 to 0: the wider interval gets no probability at all,
  where the narrower one gets one.
\<close>

theorem probability_monotone_counterexample:
  "jle (Fin 0) (Fin 90) \<and> jle (Fin 90) (Fin 110) \<and> jle (Fin 110) (Fin 120)
   \<and> calculateProbabilityInRange (Fin 100) (Fin 0) (Fin 120) (Fin 0.3) (Fin 365) = None
   \<and> calculateProbabilityInRange (Fin 100) (Fin 90) (Fin 110) (Fin 0.3) (Fin 365) \<noteq> None"
  by (simp add: calculateProbabilityInRange_None falsy_def)

text \<open>
  C10. Whatever the other arguments are, \<open>calculateProbabilityInRange\<close> returns
  \<open>null\<close> when the lower bound or the upper bound is the number 0, also when the other
  bound is infinite: the guard takes 0 for a missing argument. The guard is the only
  source of \<open>null\<close>: the result is \<open>null\<close> exactly when one of the five arguments is
  missing, NaN or zero.
\<close>

theorem probability_zero_bound:
  "calculateProbabilityInRange price (Fin 0) upperBound iv days = None
   \<and> calculateProbabilityInRange price lowerBound (Fin 0) iv days = None
   \<and> calculateProbabilityInRange price (Fin 0) PosInf iv days = None
   \<and> calculateProbabilityInRange price NegInf (Fin 0) iv days = None
   \<and> (calculateProbabilityInRange price lowerBound upperBound iv days = None
        \<longleftrightarrow> falsy price \<or> falsy lowerBound \<or> falsy upperBound \<or> falsy iv \<or> falsy days)
   \<and> (falsy upperBound \<longleftrightarrow> upperBound = NaN \<or> upperBound = Fin 0)"
  by (simp add: calculateProbabilityInRange_None) (simp add: falsy_def)

theorem probability_zero_bound_witness:
  "calculateProbabilityInRange (Fin 100) (Fin 0) (Fin 110) (Fin 0.3) (Fin 7) = None
   \<and> calculateProbabilityInRange (Fin 100) NegInf (Fin 0) (Fin 0.3) (Fin 7) = None"
  using probability_zero_bound[of "Fin 100" "Fin 110" "Fin 0.3" "Fin 7" "Fin 90"]
  by simp

section \<open>The two pipelines\<close>

text \<open>
  What the two exported pipelines return is the ranker's result on their candidate
  lists, scored by their scoring functions; the score of the six-strategy engine is an
  integer in range as well when the return on capital is not NaN.
\<close>

lemma calculateScore_range:
  assumes "roc s \<noteq> NaN"
  shows "\<exists>n. calculateScore s p = Fin (of_int n) \<and> 0 \<le> n \<and> n \<le> 100"
proof -
  from rocTerm_cases[OF assms] show ?thesis
  proof
    assume "\<exists>x. rocTerm (roc s) = Fin x"
    then obtain x where "rocTerm (roc s) = Fin x" ..
    then show ?thesis
      unfolding calculateScore_def Let_def
      by (simp only: jadd.simps clamp_round_simps) (use js_round_clamp in blast)
  next
    assume "rocTerm (roc s) = NegInf"
    then have "calculateScore s p = Fin (of_int 0)"
      unfolding calculateScore_def Let_def
      by (simp only: jadd.simps clamp_round_simps) simp
    then show ?thesis by (intro exI[of _ 0]) simp
  qed
qed

lemma generateAllStrategies_ranked:
  "\<exists>scored. map cand scored = allCandidates p
     \<and> (\<forall>x \<in> set scored. score x = calculateScore (cand x) p)
     \<and> generateAllStrategies p = rankStrategies scored"
  by (intro exI[of _ "map (\<lambda>s. \<lparr>cand = s, score = calculateScore s p\<rparr>) (allCandidates p)"])
     (auto simp: generateAllStrategies_def comp_def)

lemma generateStrategiesWithRealPrices_ranked:
  "\<exists>scored. map cand scored = realPriceCandidates p
     \<and> (\<forall>x \<in> set scored. score x = calcScore (cand x) p)
     \<and> generateStrategiesWithRealPrices p = rankStrategies scored"
  by (intro exI[of _ "map (\<lambda>s. \<lparr>cand = s, score = calcScore s p\<rparr>) (realPriceCandidates p)"])
     (auto simp: generateStrategiesWithRealPrices_def comp_def)


end
